theory Spec2Isabelle
  imports Main "HOL-Library.Word"
begin

section \<open>krenew: renewing a Kerberos ticket cache\<close>

text \<open>
  A shallow embedding of \<^verbatim>\<open>krenew.c\<close> and \<^verbatim>\<open>portable/daemon.c\<close>.
  Every C function becomes a HOL function that takes the state of the world and returns
  the new one.  Calls into the Kerberos library and into the operating system are
  recorded in a trace, in the order in which the program makes them.  Whether such a call
  fails is decided by a list of return codes that the world carries (\<open>faults\<close>): each
  fallible call takes the next code from the list, and an empty list means success.  A
  theorem that holds for every such list therefore holds for every combination of
  failures of the library.
\<close>

subsection \<open>Data\<close>

type_synonym krb5_error_code = int
type_synonym krb5_principal = string

text \<open>A cache handle refers to a cache by name.\<close>

type_synonym krb5_ccache = string

text \<open>Credentials: the client they were issued to and the serial number of the ticket.\<close>

record krb5_creds =
  client :: krb5_principal
  serial :: nat

record ccache_data =
  primary :: krb5_principal
  tickets :: "krb5_creds list"

text \<open>A file has permission bits; it holds a credential cache once it was initialised.\<close>

record cc_file =
  mode :: nat
  content :: "ccache_data option"

text \<open>Error codes of \<^verbatim>\<open>krb5.h\<close> (table base \<open>-1765328384\<close>).\<close>

definition KRB5KDC_ERR_KEY_EXP :: krb5_error_code where
  "KRB5KDC_ERR_KEY_EXP = -1765328361"

definition KRB5KRB_AP_ERR_TKT_EXPIRED :: krb5_error_code where
  "KRB5KRB_AP_ERR_TKT_EXPIRED = -1765328352"

definition KRB5_FCC_NOFILE :: krb5_error_code where
  "KRB5_FCC_NOFILE = -1765328189"

definition KRB5_CC_FORMAT :: krb5_error_code where
  "KRB5_CC_FORMAT = -1765328185"

definition SIGHUP :: nat where
  "SIGHUP = 1"

text \<open>What the library hands out and the caller has to give back.\<close>

datatype resource =
    Ccache krb5_ccache
  | Principal krb5_principal
  | Cred_contents
  | Unparsed_name

datatype call =
    Krb5_init_context
  | Krb5_cc_default
  | Krb5_cc_resolve string
  | Krb5_cc_get_full_name krb5_ccache
  | Krb5_cc_get_principal krb5_ccache
  | Krb5_cc_initialize krb5_ccache krb5_principal
  | Krb5_cc_copy_cache krb5_ccache krb5_ccache
  | Krb5_cc_store_cred krb5_ccache krb5_creds
  | Krb5_cc_close krb5_ccache
  | Krb5_cc_destroy krb5_ccache
  | Krb5_free_principal krb5_principal
  | Krb5_get_renewed_creds krb5_principal krb5_ccache
  | Krb5_free_cred_contents
  | Krb5_unparse_name krb5_principal
  | Krb5_free_unparsed_name string
  | Mkstemp string
  | Fchmod int nat
  | Setenv string string
  | Kill int nat
  | Warn string
  | Warn_krb5 krb5_error_code string
  | Notice string string
  | Die string
  | Usage int
  | Openlog
  | Fork int
  | Setsid int
  | Chdir string int
  | Open string int
  | Ioctl_TIOCNOTTY int int
  | Dup2 int int int
  | Close int
  | Spawn "string list" int
  | Write_pid string int

text \<open>
  The process and what it sees of the system.  \<open>files\<close> are the files that hold
  credential caches, by name; \<open>fds\<close> is the table of open descriptors (at most
  \<open>open_max\<close> of them); \<open>tmp_suffixes\<close> are the endings that \<^verbatim>\<open>mkstemp\<close> tries
  for a temporary name; \<open>issued\<close> counts the tickets that the KDC has issued;
  \<open>held\<close> is what the Kerberos library handed out and was not given back yet;
  \<open>trace\<close> holds the calls made so far, first call first.  The system calls of
  \<^verbatim>\<open>daemon\<close> are recorded with the value they returned.
\<close>

record world =
  uid :: "32 word"
  files :: "string \<rightharpoonup> cc_file"
  fds :: "nat \<rightharpoonup> string"
  open_max :: nat
  cwd :: string
  environ :: "string \<rightharpoonup> string"
  default_cache :: string
  tmp_suffixes :: "string list"
  issued :: nat
  held :: "resource list"
  invalid_free :: bool
  trace :: "call list"
  faults :: "krb5_error_code list"

text \<open>
  How a C function ends: it returns to its caller, it calls \<^verbatim>\<open>exit_cleanup\<close>
  (which never returns), it ends the process directly (\<^verbatim>\<open>die\<close>,
  \<^verbatim>\<open>exit\<close>), or it passes a null pointer to the library.
\<close>

datatype 'a outcome =
    Return 'a world
  | Exit_cleanup int world
  | Exit int world
  | Crash world

subsection \<open>The world: trace, return codes, resources\<close>

definition record_call :: "call \<Rightarrow> world \<Rightarrow> world" where
  "record_call c w = w\<lparr>trace := trace w @ [c]\<rparr>"

text \<open>The code the next fallible call returns, and the world once it was taken.\<close>

definition peek_code :: "world \<Rightarrow> krb5_error_code" where
  "peek_code w = (case faults w of [] \<Rightarrow> 0 | c # cs \<Rightarrow> c)"

definition advance :: "world \<Rightarrow> world" where
  "advance w = w\<lparr>faults := tl (faults w)\<rparr>"

definition next_code :: "world \<Rightarrow> krb5_error_code \<times> world" where
  "next_code w = (peek_code w, advance w)"

definition acquire :: "resource \<Rightarrow> world \<Rightarrow> world" where
  "acquire r w = w\<lparr>held := r # held w\<rparr>"

text \<open>Giving back what is not held is recorded: it is a double free in C.\<close>

definition release :: "resource \<Rightarrow> world \<Rightarrow> world" where
  "release r w =
     (if r \<in> set (held w) then w\<lparr>held := remove1 r (held w)\<rparr> else w\<lparr>invalid_free := True\<rparr>)"

subsection \<open>Messages\<close>

definition warn :: "string \<Rightarrow> world \<Rightarrow> world" where
  "warn msg w = record_call (Warn msg) w"

definition warn_krb5 :: "krb5_error_code \<Rightarrow> string \<Rightarrow> world \<Rightarrow> world" where
  "warn_krb5 code msg w = record_call (Warn_krb5 code msg) w"

definition notice :: "string \<Rightarrow> string \<Rightarrow> world \<Rightarrow> world" where
  "notice msg arg w = record_call (Notice msg arg) w"

subsection \<open>The Kerberos library\<close>

definition krb5_cc_resolve ::
  "string \<Rightarrow> world \<Rightarrow> (krb5_error_code + krb5_ccache) \<times> world" where
  "krb5_cc_resolve name w =
     (let (rc, w1) = next_code (record_call (Krb5_cc_resolve name) w)
      in if rc \<noteq> 0 then (Inl rc, w1) else (Inr name, acquire (Ccache name) w1))"

definition krb5_cc_get_principal ::
  "krb5_ccache \<Rightarrow> world \<Rightarrow> (krb5_error_code + krb5_principal) \<times> world" where
  "krb5_cc_get_principal cc w =
     (let (rc, w1) = next_code (record_call (Krb5_cc_get_principal cc) w)
      in if rc \<noteq> 0 then (Inl rc, w1)
         else case files w1 cc of
                None \<Rightarrow> (Inl KRB5_FCC_NOFILE, w1)
              | Some f \<Rightarrow>
                  (case content f of
                     None \<Rightarrow> (Inl KRB5_CC_FORMAT, w1)
                   | Some d \<Rightarrow> (Inr (primary d), acquire (Principal (primary d)) w1)))"

definition krb5_unparse_name ::
  "krb5_principal \<Rightarrow> world \<Rightarrow> (krb5_error_code + string) \<times> world" where
  "krb5_unparse_name p w =
     (let (rc, w1) = next_code (record_call (Krb5_unparse_name p) w)
      in if rc \<noteq> 0 then (Inl rc, w1) else (Inr p, acquire Unparsed_name w1))"

definition krb5_free_unparsed_name :: "string \<Rightarrow> world \<Rightarrow> world" where
  "krb5_free_unparsed_name name w =
     release Unparsed_name (record_call (Krb5_free_unparsed_name name) w)"

text \<open>
  The renewed credentials are issued to the client that was asked for; the serial number
  tells them from every ticket issued before.  On failure the buffer is left as it was.
\<close>

definition krb5_get_renewed_creds ::
  "krb5_principal \<Rightarrow> krb5_ccache \<Rightarrow> world \<Rightarrow> (krb5_error_code + krb5_creds) \<times> world" where
  "krb5_get_renewed_creds cl cc w =
     (let (rc, w1) = next_code (record_call (Krb5_get_renewed_creds cl cc) w)
      in if rc \<noteq> 0 then (Inl rc, w1)
         else (Inr \<lparr>client = cl, serial = issued w1\<rparr>,
               acquire Cred_contents (w1\<lparr>issued := Suc (issued w1)\<rparr>)))"

text \<open>
  Initialising a cache throws its tickets away and sets its primary principal; the file
  is made anew, with mode 0600 (384).
\<close>

definition krb5_cc_initialize ::
  "krb5_ccache \<Rightarrow> krb5_principal \<Rightarrow> world \<Rightarrow> krb5_error_code \<times> world" where
  "krb5_cc_initialize cc p w =
     (let (rc, w1) = next_code (record_call (Krb5_cc_initialize cc p) w)
      in if rc \<noteq> 0 then (rc, w1)
         else (0, w1\<lparr>files := (files w1)(cc \<mapsto>
                 \<lparr>mode = 384,
                  content = Some \<lparr>primary = p, tickets = []\<rparr>\<rparr>)\<rparr>))"

definition krb5_cc_store_cred ::
  "krb5_ccache \<Rightarrow> krb5_creds \<Rightarrow> world \<Rightarrow> krb5_error_code \<times> world" where
  "krb5_cc_store_cred cc cr w =
     (let (rc, w1) = next_code (record_call (Krb5_cc_store_cred cc cr) w)
      in if rc \<noteq> 0 then (rc, w1)
         else case files w1 cc of
                None \<Rightarrow> (KRB5_FCC_NOFILE, w1)
              | Some f \<Rightarrow>
                  (case content f of
                     None \<Rightarrow> (KRB5_CC_FORMAT, w1)
                   | Some d \<Rightarrow>
                       (0, w1\<lparr>files := (files w1)(cc \<mapsto>
                              f\<lparr>content := Some (d\<lparr>tickets := tickets d @ [cr]\<rparr>)\<rparr>)\<rparr>)))"

text \<open>The handle is gone after the call, whatever the code.\<close>

definition krb5_cc_close :: "krb5_ccache \<Rightarrow> world \<Rightarrow> krb5_error_code \<times> world" where
  "krb5_cc_close cc w =
     (let (rc, w1) = next_code (record_call (Krb5_cc_close cc) w)
      in (rc, release (Ccache cc) w1))"

definition krb5_free_principal :: "krb5_principal \<Rightarrow> world \<Rightarrow> world" where
  "krb5_free_principal p w = release (Principal p) (record_call (Krb5_free_principal p) w)"

text \<open>A buffer that was zeroed and never filled holds nothing to free.\<close>

definition krb5_free_cred_contents :: "krb5_creds option \<Rightarrow> world \<Rightarrow> world" where
  "krb5_free_cred_contents creds w =
     (let w1 = record_call Krb5_free_cred_contents w
      in case creds of None \<Rightarrow> w1 | Some c \<Rightarrow> release Cred_contents w1)"

subsection \<open>Configuration\<close>

record krenew_private =
  signal_child :: bool

record config =
  always_renew :: bool
  background :: bool
  childfile :: "string option"
  ignore_errors :: bool
  cache :: "string option"
  pidfile :: "string option"
  do_aklog :: bool
  verbose :: bool
  exit_errors :: bool
  happy_ticket :: int
  keep_ticket :: int
  command :: "string list option"
  clean_cache :: bool
  child :: int
  private_krenew :: krenew_private

subsection \<open>\<^verbatim>\<open>renew\<close>\<close>

text \<open>The label \<^verbatim>\<open>done\<close>: release what the locals hold and return the code.\<close>

definition renew_done ::
  "krb5_ccache option \<Rightarrow> krb5_principal option \<Rightarrow> bool \<Rightarrow> krb5_creds option \<Rightarrow>
   krb5_error_code \<Rightarrow> world \<Rightarrow> krb5_error_code outcome" where
  "renew_done ccache user creds_valid creds code w =
     (let w1 = (case ccache of None \<Rightarrow> w | Some cc \<Rightarrow> snd (krb5_cc_close cc w));
          w2 = (case user of None \<Rightarrow> w1 | Some u \<Rightarrow> krb5_free_principal u w1);
          w3 = (if creds_valid then krb5_free_cred_contents creds w2 else w2)
      in Return code w3)"

text \<open>The block under \<^verbatim>\<open>if (config->verbose)\<close>.\<close>

definition renew_verbose :: "config \<Rightarrow> krb5_principal \<Rightarrow> world \<Rightarrow> world" where
  "renew_verbose config user w =
     (if verbose config then
        (case krb5_unparse_name user w of
           (Inl code, w1) \<Rightarrow> warn_krb5 code ''error unparsing name'' w1
         | (Inr name, w1) \<Rightarrow>
             krb5_free_unparsed_name name (notice ''renewing credentials for %s'' name w1))
      else w)"

text \<open>From \<^verbatim>\<open>krb5_get_renewed_creds\<close> to the end of the function.\<close>

definition renew_request ::
  "krb5_ccache \<Rightarrow> krb5_principal \<Rightarrow> world \<Rightarrow> krb5_error_code outcome" where
  "renew_request ccache user w =
     (case krb5_get_renewed_creds user ccache w of
        (Inl code, w1) \<Rightarrow>
          renew_done (Some ccache) (Some user) True None code
            (warn_krb5 code ''error renewing credentials'' w1)
      | (Inr creds, w1) \<Rightarrow>
          (case krb5_cc_initialize ccache user w1 of (code, w2) \<Rightarrow>
             if code \<noteq> 0 then
               renew_done (Some ccache) (Some user) True (Some creds) code
                 (warn_krb5 code ''error reinitializing cache'' w2)
             else
               (case krb5_cc_store_cred ccache creds w2 of (code, w3) \<Rightarrow>
                  if code \<noteq> 0 then
                    renew_done (Some ccache) (Some user) True (Some creds) code
                      (warn_krb5 code ''error storing credentials'' w3)
                  else renew_done (Some ccache) (Some user) True (Some creds) code w3)))"

definition renew :: "config \<Rightarrow> krb5_error_code \<Rightarrow> world \<Rightarrow> krb5_error_code outcome" where
  "renew config status w =
     (if status \<noteq> 0 \<and> status \<noteq> KRB5KRB_AP_ERR_TKT_EXPIRED then
        (let w1 = (if status = KRB5KDC_ERR_KEY_EXP
                   then warn ''ticket cannot be renewed for long enough'' w
                   else warn_krb5 status ''error reading ticket cache'' w)
         in if \<not> ignore_errors config then Exit_cleanup 1 w1 else Return status w1)
      else
        (case cache config of
           None \<Rightarrow> Crash w
         | Some name \<Rightarrow>
             (case krb5_cc_resolve name w of
                (Inl code, w1) \<Rightarrow>
                  (let w2 = warn_krb5 code ''error opening ticket cache'' w1
                   in if \<not> ignore_errors config then Exit_cleanup 1 w2 else Return code w2)
              | (Inr ccache, w1) \<Rightarrow>
                  (case krb5_cc_get_principal ccache w1 of
                     (Inl code, w2) \<Rightarrow>
                       (let w3 = warn_krb5 code ''error reading ticket cache'' w2;
                            w4 = snd (krb5_cc_close ccache w3)
                        in if \<not> ignore_errors config then Exit_cleanup 1 w4
                           else Return code w4)
                   | (Inr user, w2) \<Rightarrow>
                       renew_request ccache user (renew_verbose config user w2)))))"

subsection \<open>\<^verbatim>\<open>cleanup\<close>\<close>

definition kill :: "int \<Rightarrow> nat \<Rightarrow> world \<Rightarrow> world" where
  "kill pid sig w = record_call (Kill pid sig) w"

definition cleanup :: "config \<Rightarrow> krb5_error_code \<Rightarrow> world \<Rightarrow> world" where
  "cleanup config status w =
     (if child config \<noteq> 0 \<and> signal_child (private_krenew config)
      then kill (child config) SIGHUP w else w)"

subsection \<open>Ending the process\<close>

text \<open>
  Modelled from the spec: \<^verbatim>\<open>die\<close>, \<^verbatim>\<open>sysdie\<close> and \<^verbatim>\<open>die_krb5\<close> of
  \<^verbatim>\<open>util/messages.c\<close> are not among the sources.  A configuration or setup failure is
  fatal: it is reported and the process ends at once with status 1.  They take no
  configuration, so they cannot run the cleanup of the framework.
\<close>

definition die :: "string \<Rightarrow> world \<Rightarrow> 'a outcome" where
  "die msg w = Exit 1 (record_call (Die msg) w)"

definition sysdie :: "string \<Rightarrow> world \<Rightarrow> 'a outcome" where
  "sysdie msg w = Exit 1 (record_call (Die msg) w)"

definition die_krb5 :: "krb5_error_code \<Rightarrow> string \<Rightarrow> world \<Rightarrow> 'a outcome" where
  "die_krb5 code msg w = Exit 1 (record_call (Die msg) w)"

definition usage :: "int \<Rightarrow> world \<Rightarrow> 'a outcome" where
  "usage status w = Exit status (record_call (Usage status) w)"

text \<open>What follows a call that may have ended the process.\<close>

definition and_then :: "'a outcome \<Rightarrow> ('a \<Rightarrow> world \<Rightarrow> 'b outcome) \<Rightarrow> 'b outcome" where
  "and_then r k =
     (case r of
        Return x w \<Rightarrow> k x w
      | Exit_cleanup s w \<Rightarrow> Exit_cleanup s w
      | Exit s w \<Rightarrow> Exit s w
      | Crash w \<Rightarrow> Crash w)"

definition world_of :: "'a outcome \<Rightarrow> world" where
  "world_of r =
     (case r of Return x w \<Rightarrow> w | Exit_cleanup s w \<Rightarrow> w | Exit s w \<Rightarrow> w | Crash w \<Rightarrow> w)"

subsection \<open>More of the library and of the system\<close>

definition krb5_init_context :: "world \<Rightarrow> krb5_error_code \<times> world" where
  "krb5_init_context w = next_code (record_call Krb5_init_context w)"

definition krb5_cc_default :: "world \<Rightarrow> (krb5_error_code + krb5_ccache) \<times> world" where
  "krb5_cc_default w =
     (let (rc, w1) = next_code (record_call Krb5_cc_default w)
      in if rc \<noteq> 0 then (Inl rc, w1)
         else (Inr (default_cache w1), acquire (Ccache (default_cache w1)) w1))"

definition krb5_cc_get_full_name ::
  "krb5_ccache \<Rightarrow> world \<Rightarrow> (krb5_error_code + string) \<times> world" where
  "krb5_cc_get_full_name cc w =
     (let (rc, w1) = next_code (record_call (Krb5_cc_get_full_name cc) w)
      in if rc \<noteq> 0 then (Inl rc, w1) else (Inr cc, w1))"

text \<open>Every ticket of the source is added to the destination.\<close>

definition krb5_cc_copy_cache ::
  "krb5_ccache \<Rightarrow> krb5_ccache \<Rightarrow> world \<Rightarrow> krb5_error_code \<times> world" where
  "krb5_cc_copy_cache src dst w =
     (let (rc, w1) = next_code (record_call (Krb5_cc_copy_cache src dst) w)
      in if rc \<noteq> 0 then (rc, w1)
         else case (files w1 src, files w1 dst) of
                (Some fs, Some fd) \<Rightarrow>
                  (case (content fs, content fd) of
                     (Some ds, Some dd) \<Rightarrow>
                       (0, w1\<lparr>files := (files w1)(dst \<mapsto>
                              fd\<lparr>content := Some (dd\<lparr>tickets := tickets dd @ tickets ds\<rparr>)\<rparr>)\<rparr>)
                   | _ \<Rightarrow> (KRB5_CC_FORMAT, w1))
              | _ \<Rightarrow> (KRB5_FCC_NOFILE, w1))"

definition getuid :: "world \<Rightarrow> 32 word" where
  "getuid w = uid w"

text \<open>\<^verbatim>\<open>%d\<close> of \<^verbatim>\<open>printf\<close>.\<close>

fun decimal :: "nat \<Rightarrow> string" where
  "decimal n =
     (if n < 10 then [''0123456789'' ! n]
      else decimal (n div 10) @ [''0123456789'' ! (n mod 10)])"

declare decimal.simps [simp del]

definition show_int :: "int \<Rightarrow> string" where
  "show_int i = (if i < 0 then CHR ''-'' # decimal (nat (- i)) else decimal (nat i))"

text \<open>The lowest descriptor that is not open.\<close>

definition lowest_free :: "world \<Rightarrow> nat option" where
  "lowest_free w = find (\<lambda>n. fds w n = None) [0..<open_max w]"

text \<open>
  \<^verbatim>\<open>mkstemp\<close> replaces the six \<^verbatim>\<open>X\<close> of the template so that the name is the
  one of no file, creates the file with mode 0600 (384) and opens it.  It returns the
  name and the descriptor, or -1.
\<close>

definition mkstemp :: "string \<Rightarrow> world \<Rightarrow> (string \<times> int) \<times> world" where
  "mkstemp template w =
     (let (rc, w1) = next_code (record_call (Mkstemp template) w);
          stem = take (length template - 6) template
      in if rc \<noteq> 0 then ((template, - 1), w1)
         else case (find (\<lambda>s. length s = 6 \<and> files w1 (stem @ s) = None) (tmp_suffixes w1),
                    lowest_free w1) of
                (Some s, Some fd) \<Rightarrow>
                  ((stem @ s, int fd),
                   w1\<lparr>files := (files w1)(stem @ s \<mapsto> \<lparr>mode = 384, content = None\<rparr>),
                      fds := (fds w1)(fd \<mapsto> stem @ s)\<rparr>)
              | _ \<Rightarrow> ((template, - 1), w1))"

definition fchmod :: "int \<Rightarrow> nat \<Rightarrow> world \<Rightarrow> int \<times> world" where
  "fchmod fd m w =
     (let (rc, w1) = next_code (record_call (Fchmod fd m) w)
      in if rc \<noteq> 0 \<or> fd < 0 then (- 1, w1)
         else case fds w1 (nat fd) of
                None \<Rightarrow> (- 1, w1)
              | Some path \<Rightarrow>
                  (case files w1 path of
                     None \<Rightarrow> (- 1, w1)
                   | Some f \<Rightarrow> (0, w1\<lparr>files := (files w1)(path \<mapsto> f\<lparr>mode := m\<rparr>)\<rparr>)))"

definition setenv :: "string \<Rightarrow> string \<Rightarrow> world \<Rightarrow> int \<times> world" where
  "setenv name val w =
     (let (rc, w1) = next_code (record_call (Setenv name val) w)
      in if rc \<noteq> 0 then (- 1, w1) else (0, w1\<lparr>environ := (environ w1)(name \<mapsto> val)\<rparr>))"

subsection \<open>\<^verbatim>\<open>copy_cache\<close>\<close>

text \<open>
  The C function changes the handle it is given and returns the name; here it returns
  both the name and the new handle.
\<close>

definition copy_cache :: "krb5_ccache \<Rightarrow> world \<Rightarrow> (string \<times> krb5_ccache) outcome" where
  "copy_cache ccache w =
     (case mkstemp (''/tmp/krb5cc_'' @ show_int (sint (getuid w)) @ ''_XXXXXX'') w of
        ((name, fd), w1) \<Rightarrow>
          if fd < 0 then sysdie ''cannot create ticket cache file'' w1
          else (case fchmod fd 384 w1 of (rc, w2) \<Rightarrow>
            if rc < 0 then sysdie ''cannot chmod ticket cache file'' w2
            else (case krb5_cc_resolve name w2 of
               (Inl code, w3) \<Rightarrow> die_krb5 code ''error initializing new ticket cache'' w3
             | (Inr new, w3) \<Rightarrow>
                 (let old = ccache
                  in case krb5_cc_get_principal old w3 of
                       (Inl code, w4) \<Rightarrow>
                         die_krb5 code ''error getting principal from old cache'' w4
                     | (Inr princ, w4) \<Rightarrow>
                         (case krb5_cc_initialize new princ w4 of (code, w5) \<Rightarrow>
                            if code \<noteq> 0 then die_krb5 code ''error initializing new cache'' w5
                            else (case krb5_cc_copy_cache old new (krb5_free_principal princ w5) of
                              (code, w7) \<Rightarrow>
                                if code \<noteq> 0 then die_krb5 code ''error copying credentials'' w7
                                else (case krb5_cc_close old w7 of (code, w8) \<Rightarrow>
                                  if code \<noteq> 0
                                  then die_krb5 code ''error closing old ticket cache'' w8
                                  else Return (name, new) w8)))))))"

subsection \<open>\<^verbatim>\<open>main\<close>\<close>

text \<open>\<^verbatim>\<open>memset(&config, 0, sizeof(config))\<close> and the same for the private options.\<close>

definition zero_config :: config where
  "zero_config =
     \<lparr>always_renew = False, background = False, childfile = None, ignore_errors = False,
      cache = None, pidfile = None, do_aklog = False, verbose = False, exit_errors = False,
      happy_ticket = 0, keep_ticket = 0, command = None, clean_cache = False, child = 0,
      private_krenew = \<lparr>signal_child = False\<rparr>\<rparr>"

text \<open>
  The loop over \<^verbatim>\<open>getopt\<close>.  The list holds what \<^verbatim>\<open>getopt\<close> returns call after
  call: the option character and \<^verbatim>\<open>optarg\<close>.  For an option it does not know
  \<^verbatim>\<open>getopt\<close> returns \<^verbatim>\<open>?\<close>, which takes the default branch, as \<^verbatim>\<open>q\<close> does.
  \<^verbatim>\<open>convert_number\<close> is declared in \<^verbatim>\<open>internal.h\<close>, which is not among the sources:
  it is a parameter.
\<close>

fun parse_options ::
  "(string \<Rightarrow> nat \<Rightarrow> int) \<Rightarrow> (char \<times> string) list \<Rightarrow> config \<Rightarrow> world \<Rightarrow> config outcome" where
  "parse_options convert_number [] config w = Return config w"
| "parse_options convert_number ((option, optarg) # rest) config w =
     (if option = CHR ''a'' then
        parse_options convert_number rest (config\<lparr>always_renew := True\<rparr>) w
      else if option = CHR ''b'' then
        parse_options convert_number rest (config\<lparr>background := True\<rparr>) w
      else if option = CHR ''c'' then
        parse_options convert_number rest (config\<lparr>childfile := Some optarg\<rparr>) w
      else if option = CHR ''h'' then usage 0 w
      else if option = CHR ''i'' then
        parse_options convert_number rest (config\<lparr>ignore_errors := True\<rparr>) w
      else if option = CHR ''k'' then
        parse_options convert_number rest (config\<lparr>cache := Some optarg\<rparr>) w
      else if option = CHR ''p'' then
        parse_options convert_number rest (config\<lparr>pidfile := Some optarg\<rparr>) w
      else if option = CHR ''s'' then
        parse_options convert_number rest
          (config\<lparr>private_krenew := (private_krenew config)\<lparr>signal_child := True\<rparr>\<rparr>) w
      else if option = CHR ''t'' then
        parse_options convert_number rest (config\<lparr>do_aklog := True\<rparr>) w
      else if option = CHR ''v'' then
        parse_options convert_number rest (config\<lparr>verbose := True\<rparr>) w
      else if option = CHR ''x'' then
        parse_options convert_number rest (config\<lparr>exit_errors := True\<rparr>) w
      else if option = CHR ''H'' then
        (let config1 = config\<lparr>happy_ticket := convert_number optarg 10\<rparr>
         in if happy_ticket config1 \<le> 0 then die ''-H limit argument %s invalid'' w
            else parse_options convert_number rest config1 w)
      else if option = CHR ''K'' then
        (let config1 = config\<lparr>keep_ticket := convert_number optarg 10\<rparr>
         in if keep_ticket config1 \<le> 0 then die ''-K interval argument %s invalid'' w
            else parse_options convert_number rest config1 w)
      else if option = CHR ''L'' then
        parse_options convert_number rest config (record_call Openlog w)
      else usage 1 w)"

text \<open>The block under \<^verbatim>\<open>Check the arguments for consistency\<close>.\<close>

definition check_arguments :: "config \<Rightarrow> world \<Rightarrow> unit outcome" where
  "check_arguments config w =
     (let run_as_daemon = (keep_ticket config \<noteq> 0 \<or> command config \<noteq> None)
      in if always_renew config \<and> \<not> run_as_daemon then
           die ''-a only makes sense with -K or a command to run'' w
         else if background config \<and> \<not> run_as_daemon then
           die ''-b only makes sense with -K or a command to run'' w
         else if happy_ticket config > 0 \<and> command config \<noteq> None then
           die ''-H option cannot be used with a command'' w
         else if childfile config \<noteq> None \<and> command config = None then
           die ''-c option only makes sense with a command to run'' w
         else if signal_child (private_krenew config) \<and> command config = None then
           die ''-s option only makes sense with a command to run'' w
         else Return () w)"

text \<open>
  From \<^verbatim>\<open>krb5_init_context\<close> to the call of \<^verbatim>\<open>run_framework\<close>: the result is the
  configuration that \<^verbatim>\<open>run_framework\<close> is called with.
\<close>

definition open_cache :: "config \<Rightarrow> world \<Rightarrow> krb5_ccache outcome" where
  "open_cache config w =
     (case krb5_init_context w of (code, w1) \<Rightarrow>
        if code \<noteq> 0 then die_krb5 code ''error initializing Kerberos'' w1
        else (case (case cache config of
                      None \<Rightarrow> krb5_cc_default w1
                    | Some name \<Rightarrow> krb5_cc_resolve name w1) of
                (Inl code, w2) \<Rightarrow> die_krb5 code ''error opening default ticket cache'' w2
              | (Inr ccache, w2) \<Rightarrow> Return ccache w2))"

definition set_cache :: "config \<Rightarrow> krb5_ccache \<Rightarrow> world \<Rightarrow> config outcome" where
  "set_cache config ccache w =
     (case cache config of
        None \<Rightarrow>
          (case krb5_cc_get_full_name ccache w of
             (Inl code, w1) \<Rightarrow> die_krb5 code ''error getting ticket cache name'' w1
           | (Inr name, w1) \<Rightarrow>
               Return (config\<lparr>cache := Some name\<rparr>) (snd (krb5_cc_close ccache w1)))
      | Some name \<Rightarrow>
          (case setenv ''KRB5CCNAME'' name w of (rc, w1) \<Rightarrow>
             if rc \<noteq> 0 then die ''cannot set KRB5CCNAME environment variable'' w1
             else Return config (snd (krb5_cc_close ccache w1))))"

definition main ::
  "(string \<Rightarrow> nat \<Rightarrow> int) \<Rightarrow> (char \<times> string) list \<Rightarrow> string list \<Rightarrow> world \<Rightarrow> config outcome" where
  "main convert_number opts args w =
     and_then (parse_options convert_number opts zero_config w) (\<lambda>config0 w1.
       let config = (if args \<noteq> [] then config0\<lparr>command := Some args\<rparr> else config0)
       in and_then (check_arguments config w1) (\<lambda>u w2.
            and_then (open_cache config w2) (\<lambda>ccache w3.
              if command config \<noteq> None then
                and_then (copy_cache ccache w3) (\<lambda>(name, new) w4.
                  set_cache (config\<lparr>cache := Some name, clean_cache := True\<rparr>) new w4)
              else set_cache config ccache w3)))"

section \<open>\<^verbatim>\<open>portable/daemon.c\<close>\<close>

subsection \<open>System calls\<close>

text \<open>
  \<^verbatim>\<open>fork\<close> returns what the list of return codes says: a negative value when it fails,
  the child's process ID in the parent, 0 in the child.  The other calls fail when the
  next code is not 0.  The value of \<^verbatim>\<open>errno\<close> is not modelled.
\<close>

definition fork :: "world \<Rightarrow> int \<times> world" where
  "fork w = (peek_code w, record_call (Fork (peek_code w)) (advance w))"

definition setsid :: "world \<Rightarrow> int \<times> world" where
  "setsid w =
     (let rc = (if peek_code w \<noteq> 0 then - 1 else 0)
      in (rc, record_call (Setsid rc) (advance w)))"

definition chdir :: "string \<Rightarrow> world \<Rightarrow> int \<times> world" where
  "chdir path w =
     (if peek_code w \<noteq> 0 then (- 1, record_call (Chdir path (- 1)) (advance w))
      else (0, record_call (Chdir path 0) ((advance w)\<lparr>cwd := path\<rparr>)))"

text \<open>\<^verbatim>\<open>open\<close> returns the lowest descriptor that is not open.\<close>

definition sys_open :: "string \<Rightarrow> world \<Rightarrow> int \<times> world" where
  "sys_open path w =
     (if peek_code w \<noteq> 0 then (- 1, record_call (Open path (- 1)) (advance w))
      else case lowest_free w of
             None \<Rightarrow> (- 1, record_call (Open path (- 1)) (advance w))
           | Some fd \<Rightarrow>
               (int fd, record_call (Open path (int fd)) ((advance w)\<lparr>fds := (fds w)(fd \<mapsto> path)\<rparr>)))"

definition ioctl_TIOCNOTTY :: "int \<Rightarrow> world \<Rightarrow> int \<times> world" where
  "ioctl_TIOCNOTTY fd w =
     (let rc = (if peek_code w \<noteq> 0 then - 1 else 0)
      in (rc, record_call (Ioctl_TIOCNOTTY fd rc) (advance w)))"

text \<open>\<^verbatim>\<open>dup2\<close> closes the new descriptor if it is open and makes it a copy of the old.\<close>

definition dup2 :: "int \<Rightarrow> int \<Rightarrow> world \<Rightarrow> int \<times> world" where
  "dup2 oldfd newfd w =
     (if peek_code w \<noteq> 0 \<or> oldfd < 0 \<or> newfd < 0 then
        (- 1, record_call (Dup2 oldfd newfd (- 1)) (advance w))
      else case fds w (nat oldfd) of
             None \<Rightarrow> (- 1, record_call (Dup2 oldfd newfd (- 1)) (advance w))
           | Some path \<Rightarrow>
               (newfd, record_call (Dup2 oldfd newfd newfd)
                         ((advance w)\<lparr>fds := (fds w)(nat newfd \<mapsto> path)\<rparr>)))"

definition sys_close :: "int \<Rightarrow> world \<Rightarrow> world" where
  "sys_close fd w =
     record_call (Close fd) (if fd < 0 then w else w\<lparr>fds := (fds w)(nat fd := None)\<rparr>)"

subsection \<open>\<^verbatim>\<open>daemon\<close>\<close>

text \<open>
  The part between \<^verbatim>\<open>#if HAVE_SETSID\<close> and \<^verbatim>\<open>#endif\<close>.  The two macros come from
  \<^verbatim>\<open>config.h\<close> and the system headers: they are parameters.  The result says whether
  the function returns -1 there.
\<close>

definition detach_terminal :: "bool \<Rightarrow> bool \<Rightarrow> world \<Rightarrow> bool \<times> world" where
  "detach_terminal have_setsid tiocnotty w =
     (if have_setsid then (case setsid w of (rc, w1) \<Rightarrow> (rc < 0, w1))
      else if tiocnotty then
        (case sys_open ''/dev/tty'' w of (fd, w1) \<Rightarrow>
           if fd \<ge> 0 then
             (case ioctl_TIOCNOTTY fd w1 of (rc, w2) \<Rightarrow>
                if rc < 0 then (True, sys_close fd w2) else (False, sys_close fd w2))
           else (False, w1))
      else (False, w))"

text \<open>The block under \<^verbatim>\<open>if (!noclose)\<close>, and the \<^verbatim>\<open>return 0\<close> after it.\<close>

definition redirect_streams :: "world \<Rightarrow> int outcome" where
  "redirect_streams w =
     (case sys_open ''/dev/null'' w of (fd, w1) \<Rightarrow>
        if fd < 0 then Return (- 1) w1
        else (case dup2 fd 0 w1 of (rc, w2) \<Rightarrow>
          if rc < 0 then Return (- 1) w2
          else (case dup2 fd 1 w2 of (rc, w3) \<Rightarrow>
            if rc < 0 then Return (- 1) w3
            else (case dup2 fd 2 w3 of (rc, w4) \<Rightarrow>
              if rc < 0 then Return (- 1) w4
              else Return 0 (if fd > 2 then sys_close fd w4 else w4)))))"

definition daemon :: "bool \<Rightarrow> bool \<Rightarrow> bool \<Rightarrow> bool \<Rightarrow> world \<Rightarrow> int outcome" where
  "daemon have_setsid tiocnotty nochdir noclose w =
     (case fork w of (status, w1) \<Rightarrow>
        if status < 0 then Return (- 1) w1
        else if status > 0 then Exit 0 w1
        else (case detach_terminal have_setsid tiocnotty w1 of (failed, w2) \<Rightarrow>
          if failed then Return (- 1) w2
          else (case (if \<not> nochdir then chdir ''/'' w2 else (0, w2)) of (rc, w3) \<Rightarrow>
            if \<not> nochdir \<and> rc < 0 then Return (- 1) w3
            else if \<not> noclose then redirect_streams w3
            else Return 0 w3)))"

section \<open>The framework\<close>

text \<open>
  \<^verbatim>\<open>run_framework\<close> and \<^verbatim>\<open>exit_cleanup\<close> are defined in \<^verbatim>\<open>framework.c\<close>, which
  is not among the sources.  \<^verbatim>\<open>krenew.c\<close> hands them the configuration, with
  \<^verbatim>\<open>renew\<close> and \<^verbatim>\<open>cleanup\<close> as callbacks.
\<close>

datatype run =
    Exited int world
  | Waiting config world
  | Crashed world

text \<open>
  Modelled from the spec: \<^verbatim>\<open>exit_cleanup\<close> of \<^verbatim>\<open>framework.c\<close> is missing.  The state
  CLEANUP of the Scheduler: if the cache is a temporary duplicate, delete its backing
  file; close all open cache handles; signal the child, which is what the callback
  \<^verbatim>\<open>cleanup\<close> of \<^verbatim>\<open>krenew.c\<close> does; then the process ends with the status.
\<close>

definition remove_cache :: "string \<Rightarrow> world \<Rightarrow> world" where
  "remove_cache name w = (record_call (Krb5_cc_destroy name) w)\<lparr>files := (files w)(name := None)\<rparr>"

definition close_handles :: "world \<Rightarrow> world" where
  "close_handles w =
     w\<lparr>held := filter (\<lambda>r. case r of Ccache cc \<Rightarrow> False | _ \<Rightarrow> True) (held w)\<rparr>"

definition exit_cleanup :: "config \<Rightarrow> int \<Rightarrow> world \<Rightarrow> run" where
  "exit_cleanup config status w =
     (let w1 = (if clean_cache config
                then (case cache config of None \<Rightarrow> w | Some name \<Rightarrow> remove_cache name w)
                else w);
          w2 = close_handles w1;
          w3 = cleanup config status w2
      in Exited status w3)"

text \<open>
  Modelled from the spec: the outcome of one attempt, as the Scheduler's error policy
  sees it.  A prior status other than none and ticket expired is a permanent failure
  (the renewable lifetime is over) or an unavailable cache; a failure before renewed
  credentials were requested is an unavailable cache; a failure of the request or of
  storing its result is transient.
\<close>

datatype renewal_result =
    Success
  | TransientFailure krb5_error_code
  | PermanentFailure krb5_error_code
  | CacheUnavailable krb5_error_code

definition attempt_result ::
  "krb5_error_code \<Rightarrow> krb5_error_code \<Rightarrow> call list \<Rightarrow> renewal_result" where
  "attempt_result prior_status code calls =
     (if code = 0 then Success
      else if prior_status \<noteq> 0 \<and> prior_status \<noteq> KRB5KRB_AP_ERR_TKT_EXPIRED then
        (if prior_status = KRB5KDC_ERR_KEY_EXP then PermanentFailure code
         else CacheUnavailable code)
      else if list_ex (\<lambda>c. case c of Krb5_get_renewed_creds u cc \<Rightarrow> True | _ \<Rightarrow> False) calls
        then TransientFailure code
      else CacheUnavailable code)"

text \<open>
  Modelled from the spec: the error policy.  A transient failure: the loop continues
  unless exit-on-error is set.  A permanent failure or an unavailable cache: the loop
  continues only if ignore-errors is set.
\<close>

definition keep_running :: "config \<Rightarrow> renewal_result \<Rightarrow> bool" where
  "keep_running config r =
     (case r of
        Success \<Rightarrow> True
      | TransientFailure code \<Rightarrow> \<not> exit_errors config
      | PermanentFailure code \<Rightarrow> ignore_errors config
      | CacheUnavailable code \<Rightarrow> ignore_errors config)"

text \<open>
  What wakes the Scheduler: the timer or the state of the ticket, with the status that
  the attempt is given (0 on a wake of the timer, the code of the check of the ticket
  otherwise, as the comment above \<^verbatim>\<open>renew\<close> says), or the exit of the child with its
  exit status.
\<close>

datatype event = Wake krb5_error_code | Child_exit int

text \<open>
  Modelled from the spec: the state RUNNING of the Scheduler.  On each wake one attempt
  is made and the error policy is applied; the loop ends as soon as the child exits, with
  the child's exit status, and the record of the child is reset.  When no event is
  left the process is still waiting.
\<close>

fun running :: "config \<Rightarrow> event list \<Rightarrow> world \<Rightarrow> run" where
  "running config [] w = Waiting config w"
| "running config (Wake prior_status # es) w =
     (case renew config prior_status w of
        Return code w1 \<Rightarrow>
          if keep_running config
               (attempt_result prior_status code (drop (length (trace w)) (trace w1)))
          then running config es w1
          else exit_cleanup config 1 w1
      | Exit_cleanup status w1 \<Rightarrow> exit_cleanup config status w1
      | Exit status w1 \<Rightarrow> Exited status w1
      | Crash w1 \<Rightarrow> Crashed w1)"
| "running config (Child_exit status # es) w =
     (if child config \<noteq> 0 then exit_cleanup (config\<lparr>child := 0\<rparr>) status w
      else running config es w)"

text \<open>
  What the framework meets besides the library: whether the Daemonizer succeeds, the
  process ID of the spawned command (not positive when it cannot be spawned), whether
  the ticket outlives the happy-ticket threshold, and the events.
\<close>

record environment =
  detached :: bool
  spawned :: int
  ticket_happy :: bool
  events :: "event list"

text \<open>
  Modelled from the spec: \<^verbatim>\<open>run_framework\<close> of \<^verbatim>\<open>framework.c\<close> is missing.  The
  states ONE_SHOT (no interval and no command: a happy ticket ends the run with status
  0, otherwise one attempt is made and the status is 0 on success and 1 on failure),
  DAEMON_SETUP (the Daemonizer, then the PID file) and RUNNING (the command is spawned
  and its PID written).  A failure to daemonize or to spawn is fatal; the cleanup runs
  before every exit.
\<close>

definition write_pid :: "string option \<Rightarrow> int \<Rightarrow> world \<Rightarrow> world" where
  "write_pid path pid w = (case path of None \<Rightarrow> w | Some p \<Rightarrow> record_call (Write_pid p pid) w)"

definition run_framework :: "environment \<Rightarrow> config \<Rightarrow> world \<Rightarrow> run" where
  "run_framework env config w =
     (if keep_ticket config = 0 \<and> command config = None then
        (if happy_ticket config > 0 \<and> ticket_happy env then exit_cleanup config 0 w
         else (case renew config 0 w of
                 Return code w1 \<Rightarrow> exit_cleanup config (if code = 0 then 0 else 1) w1
               | Exit_cleanup status w1 \<Rightarrow> exit_cleanup config status w1
               | Exit status w1 \<Rightarrow> Exited status w1
               | Crash w1 \<Rightarrow> Crashed w1))
      else if background config \<and> \<not> detached env then exit_cleanup config 1 w
      else
        (let w1 = write_pid (pidfile config) 0 w
         in case command config of
              None \<Rightarrow> running config (events env) w1
            | Some argv \<Rightarrow>
                if spawned env \<le> 0 then
                  exit_cleanup config 1 (record_call (Spawn argv (spawned env)) w1)
                else
                  running (config\<lparr>child := spawned env\<rparr>) (events env)
                    (write_pid (childfile config) (spawned env)
                       (record_call (Spawn argv (spawned env)) w1))))"

section \<open>Examples of inputs\<close>

text \<open>
  A world with one credential cache, which holds one ticket of \<^verbatim>\<open>alice@EXAMPLE.ORG\<close>;
  the standard streams are open on a terminal and no library call fails.
\<close>

definition example_world :: world where
  "example_world =
     \<lparr>uid = 1000,
      files = [''/tmp/krb5cc_1000'' \<mapsto>
                 \<lparr>mode = 384,
                  content = Some \<lparr>primary = ''alice@EXAMPLE.ORG'',
                                  tickets = [\<lparr>client = ''alice@EXAMPLE.ORG'', serial = 0\<rparr>]\<rparr>\<rparr>],
      fds = [0 \<mapsto> ''/dev/pts/0'', 1 \<mapsto> ''/dev/pts/0'', 2 \<mapsto> ''/dev/pts/0''],
      open_max = 16,
      cwd = ''/home/alice'',
      environ = Map.empty,
      default_cache = ''/tmp/krb5cc_1000'',
      tmp_suffixes = [''Ab3xYz''],
      issued = 1,
      held = [],
      invalid_free = False,
      trace = [],
      faults = []\<rparr>"

definition example_config :: config where
  "example_config = zero_config\<lparr>cache := Some ''/tmp/krb5cc_1000''\<rparr>"

text \<open>A stand-in for \<^verbatim>\<open>convert_number\<close> that knows two strings.\<close>

definition example_convert :: "string \<Rightarrow> nat \<Rightarrow> int" where
  "example_convert str base = (if str = ''60'' then 60 else if str = ''10'' then 10 else 0)"

definition example_environment :: environment where
  "example_environment =
     \<lparr>detached = True, spawned = 4242, ticket_happy = False,
      events = [Wake 0, Child_exit 2]\<rparr>"

text \<open>
  The configuration of a run that supervises a command whose process ID is 4242, with
  \<^verbatim>\<open>-s\<close>.
\<close>

definition supervising_config :: config where
  "supervising_config =
     example_config\<lparr>command := Some [''/bin/sh''], child := 4242,
                     private_krenew := \<lparr>signal_child = True\<rparr>\<rparr>"

section \<open>Notions used in the statements\<close>

text \<open>
  The calls that \<^verbatim>\<open>renew\<close> makes to report the principal when \<^verbatim>\<open>verbose\<close> is set:
  none, or the name is unparsed, reported and freed, or unparsing fails with a warning.
\<close>

definition verbose_calls :: "krb5_principal \<Rightarrow> call list \<Rightarrow> bool" where
  "verbose_calls u vs \<longleftrightarrow>
     vs = [] \<or>
     vs = [Krb5_unparse_name u, Notice ''renewing credentials for %s'' u,
           Krb5_free_unparsed_name u] \<or>
     (\<exists>c. vs = [Krb5_unparse_name u, Warn_krb5 c ''error unparsing name''])"

text \<open>
  The cache cannot be resolved, or it can and no principal can be read from it; \<open>code\<close>
  is the code of the call that fails.
\<close>

definition cache_unavailable :: "config \<Rightarrow> world \<Rightarrow> krb5_error_code \<Rightarrow> bool" where
  "cache_unavailable config w code \<longleftrightarrow>
     (case cache config of
        None \<Rightarrow> False
      | Some name \<Rightarrow>
          (case krb5_cc_resolve name w of
             (Inl c, w1) \<Rightarrow> c = code
           | (Inr ccache, w1) \<Rightarrow> fst (krb5_cc_get_principal ccache w1) = Inl code))"

text \<open>The constraints on the configuration that \<^verbatim>\<open>main\<close> checks.\<close>

definition constraint_violated :: "config \<Rightarrow> bool" where
  "constraint_violated config \<longleftrightarrow>
     ((always_renew config \<or> background config) \<and> keep_ticket config = 0 \<and> command config = None) \<or>
     (happy_ticket config > 0 \<and> command config \<noteq> None) \<or>
     ((childfile config \<noteq> None \<or> signal_child (private_krenew config)) \<and> command config = None)"

text \<open>
  What parsing the options may call: \<^verbatim>\<open>openlog\<close>, \<^verbatim>\<open>usage\<close> and \<^verbatim>\<open>die\<close>,
  and nothing of Kerberos.  \<open>parsed w r\<close>: the outcome \<open>r\<close> is a return or an exit in
  a world that differs from \<open>w\<close> by such calls only.
\<close>

definition parsing_call :: "call \<Rightarrow> bool" where
  "parsing_call c = (case c of Openlog \<Rightarrow> True | Usage st \<Rightarrow> True | Die m \<Rightarrow> True | _ \<Rightarrow> False)"

definition parsed :: "world \<Rightarrow> config outcome \<Rightarrow> bool" where
  "parsed w r \<longleftrightarrow>
     (case r of
        Return c w1 \<Rightarrow> \<exists>cs. w1 = w\<lparr>trace := trace w @ cs\<rparr> \<and> list_all parsing_call cs
      | Exit st w1 \<Rightarrow> \<exists>cs. w1 = w\<lparr>trace := trace w @ cs\<rparr> \<and> list_all parsing_call cs
      | _ \<Rightarrow> False)"

text \<open>
  The calls made between two worlds.  A failed redirection is a failed \<^verbatim>\<open>open\<close> of
  the null device or a failed \<^verbatim>\<open>dup2\<close>; \<open>calls_after_failure\<close> are the calls made
  after the first of them.
\<close>

definition failed_redirect :: "call \<Rightarrow> bool" where
  "failed_redirect c =
     (case c of
        Open path r \<Rightarrow> path = ''/dev/null'' \<and> r < 0
      | Dup2 oldfd newfd r \<Rightarrow> r < 0
      | _ \<Rightarrow> False)"

fun calls_after_failure :: "call list \<Rightarrow> call list" where
  "calls_after_failure [] = []"
| "calls_after_failure (c # cs) = (if failed_redirect c then cs else calls_after_failure cs)"

definition new_calls :: "world \<Rightarrow> world \<Rightarrow> call list" where
  "new_calls w w' = drop (length (trace w)) (trace w')"

text \<open>The world in which a run of the framework ends or waits.\<close>

definition final_world :: "run \<Rightarrow> world" where
  "final_world r = (case r of Exited s w \<Rightarrow> w | Waiting c w \<Rightarrow> w | Crashed w \<Rightarrow> w)"

text \<open>The signals that the process has sent, in the order of sending.\<close>

definition is_signal :: "call \<Rightarrow> bool" where
  "is_signal c = (case c of Kill pid sig \<Rightarrow> True | _ \<Rightarrow> False)"

definition signals :: "world \<Rightarrow> call list" where
  "signals w = filter is_signal (trace w)"

section \<open>Properties\<close>

subsection \<open>What the calls change\<close>

lemma world_of_simps [simp]:
  "world_of (Return x w) = w"
  "world_of (Exit_cleanup s w) = w"
  "world_of (Exit s w) = w"
  "world_of (Crash w) = w"
  by (simp_all add: world_of_def)

lemma peek_code_record_call [simp]: "peek_code (record_call c w) = peek_code w"
  by (simp add: record_call_def peek_code_def)

lemma held_simps [simp]:
  "held (record_call c w) = held w"
  "held (advance w) = held w"
  "held (acquire r w) = r # held w"
  "held (release r w) = (if r \<in> set (held w) then remove1 r (held w) else held w)"
  "held (warn m w) = held w"
  "held (warn_krb5 code m w) = held w"
  "held (notice m a w) = held w"
  by (simp_all add: record_call_def advance_def acquire_def release_def warn_def
      warn_krb5_def notice_def)

lemma invalid_free_simps [simp]:
  "invalid_free (record_call c w) = invalid_free w"
  "invalid_free (advance w) = invalid_free w"
  "invalid_free (acquire r w) = invalid_free w"
  "invalid_free (release r w) = (r \<in> set (held w) \<longrightarrow> invalid_free w)"
  "invalid_free (warn m w) = invalid_free w"
  "invalid_free (warn_krb5 code m w) = invalid_free w"
  "invalid_free (notice m a w) = invalid_free w"
  by (simp_all add: record_call_def advance_def acquire_def release_def warn_def
      warn_krb5_def notice_def)

lemma files_simps [simp]:
  "files (record_call c w) = files w"
  "files (advance w) = files w"
  "files (acquire r w) = files w"
  "files (release r w) = files w"
  "files (warn m w) = files w"
  "files (warn_krb5 code m w) = files w"
  "files (notice m a w) = files w"
  by (simp_all add: record_call_def advance_def acquire_def release_def warn_def
      warn_krb5_def notice_def)

lemma issued_simps [simp]:
  "issued (record_call c w) = issued w"
  "issued (advance w) = issued w"
  "issued (acquire r w) = issued w"
  "issued (release r w) = issued w"
  "issued (warn m w) = issued w"
  "issued (warn_krb5 code m w) = issued w"
  "issued (notice m a w) = issued w"
  by (simp_all add: record_call_def advance_def acquire_def release_def warn_def
      warn_krb5_def notice_def)

lemma trace_simps [simp]:
  "trace (record_call c w) = trace w @ [c]"
  "trace (advance w) = trace w"
  "trace (acquire r w) = trace w"
  "trace (release r w) = trace w"
  "trace (warn m w) = trace w @ [Warn m]"
  "trace (warn_krb5 code m w) = trace w @ [Warn_krb5 code m]"
  "trace (notice m a w) = trace w @ [Notice m a]"
  by (simp_all add: record_call_def advance_def acquire_def release_def warn_def
      warn_krb5_def notice_def)

lemma fds_simps [simp]:
  "fds (record_call c w) = fds w"
  "fds (advance w) = fds w"
  "fds (acquire r w) = fds w"
  "fds (release r w) = fds w"
  by (simp_all add: record_call_def advance_def acquire_def release_def)

lemma open_max_simps [simp]:
  "open_max (record_call c w) = open_max w"
  "open_max (advance w) = open_max w"
  by (simp_all add: record_call_def advance_def)

lemma Inl_nonzero [simp]:
  "fst (krb5_cc_resolve n w) \<noteq> Inl 0"
  "fst (krb5_cc_get_principal cc w) \<noteq> Inl 0"
  "fst (krb5_unparse_name u w) \<noteq> Inl 0"
  "fst (krb5_get_renewed_creds u cc w) \<noteq> Inl 0"
  by (simp_all add: krb5_cc_resolve_def krb5_cc_get_principal_def krb5_unparse_name_def
        krb5_get_renewed_creds_def next_code_def KRB5_FCC_NOFILE_def KRB5_CC_FORMAT_def
      split: option.splits)

lemma resolve_effect [simp]:
  "held (snd (krb5_cc_resolve n w)) =
     (case fst (krb5_cc_resolve n w) of Inl c \<Rightarrow> held w | Inr c \<Rightarrow> Ccache n # held w)"
  "invalid_free (snd (krb5_cc_resolve n w)) = invalid_free w"
  "files (snd (krb5_cc_resolve n w)) = files w"
  "issued (snd (krb5_cc_resolve n w)) = issued w"
  "trace (snd (krb5_cc_resolve n w)) = trace w @ [Krb5_cc_resolve n]"
  by (simp_all add: krb5_cc_resolve_def next_code_def)

lemma resolve_handle: "fst (krb5_cc_resolve n w) = Inr cc \<Longrightarrow> cc = n"
  by (simp add: krb5_cc_resolve_def next_code_def split: if_splits)

lemma get_principal_effect [simp]:
  "held (snd (krb5_cc_get_principal cc w)) =
     (case fst (krb5_cc_get_principal cc w) of
        Inl c \<Rightarrow> held w | Inr p \<Rightarrow> Principal p # held w)"
  "invalid_free (snd (krb5_cc_get_principal cc w)) = invalid_free w"
  "files (snd (krb5_cc_get_principal cc w)) = files w"
  "issued (snd (krb5_cc_get_principal cc w)) = issued w"
  "trace (snd (krb5_cc_get_principal cc w)) = trace w @ [Krb5_cc_get_principal cc]"
  by (simp_all add: krb5_cc_get_principal_def next_code_def split: option.splits)

lemma get_principal_Inr:
  "fst (krb5_cc_get_principal cc w) = Inr p \<Longrightarrow>
   \<exists>f d. files w cc = Some f \<and> content f = Some d \<and> primary d = p"
  by (auto simp: krb5_cc_get_principal_def next_code_def split: option.splits if_splits)

lemma get_renewed_effect [simp]:
  "held (snd (krb5_get_renewed_creds u cc w)) =
     (case fst (krb5_get_renewed_creds u cc w) of
        Inl c \<Rightarrow> held w | Inr c \<Rightarrow> Cred_contents # held w)"
  "invalid_free (snd (krb5_get_renewed_creds u cc w)) = invalid_free w"
  "files (snd (krb5_get_renewed_creds u cc w)) = files w"
  "trace (snd (krb5_get_renewed_creds u cc w)) = trace w @ [Krb5_get_renewed_creds u cc]"
  by (simp_all add: krb5_get_renewed_creds_def next_code_def acquire_def)

lemma get_renewed_Inr:
  "fst (krb5_get_renewed_creds u cc w) = Inr cr \<Longrightarrow>
   cr = \<lparr>client = u, serial = issued w\<rparr> \<and>
   issued (snd (krb5_get_renewed_creds u cc w)) = Suc (issued w)"
  by (auto simp: krb5_get_renewed_creds_def next_code_def acquire_def advance_def
      record_call_def split: if_splits)

lemma initialize_effect [simp]:
  "held (snd (krb5_cc_initialize cc p w)) = held w"
  "invalid_free (snd (krb5_cc_initialize cc p w)) = invalid_free w"
  "issued (snd (krb5_cc_initialize cc p w)) = issued w"
  "trace (snd (krb5_cc_initialize cc p w)) = trace w @ [Krb5_cc_initialize cc p]"
  by (simp_all add: krb5_cc_initialize_def next_code_def)

lemma initialize_ok:
  "fst (krb5_cc_initialize cc p w) = 0 \<Longrightarrow>
   files (snd (krb5_cc_initialize cc p w)) =
     (files w)(cc \<mapsto> \<lparr>mode = 384,
                     content = Some \<lparr>primary = p, tickets = []\<rparr>\<rparr>)"
  by (simp add: krb5_cc_initialize_def next_code_def split: if_splits)

lemma store_effect [simp]:
  "held (snd (krb5_cc_store_cred cc cr w)) = held w"
  "invalid_free (snd (krb5_cc_store_cred cc cr w)) = invalid_free w"
  "issued (snd (krb5_cc_store_cred cc cr w)) = issued w"
  "trace (snd (krb5_cc_store_cred cc cr w)) = trace w @ [Krb5_cc_store_cred cc cr]"
  by (simp_all add: krb5_cc_store_cred_def next_code_def split: option.splits)

lemma store_ok:
  "fst (krb5_cc_store_cred cc cr w) = 0 \<Longrightarrow> files w cc = Some f \<Longrightarrow> content f = Some d \<Longrightarrow>
   files (snd (krb5_cc_store_cred cc cr w)) =
     (files w)(cc \<mapsto> f\<lparr>content := Some (d\<lparr>tickets := tickets d @ [cr]\<rparr>)\<rparr>)"
  by (simp add: krb5_cc_store_cred_def next_code_def split: if_splits)

lemma close_effect [simp]:
  "held (snd (krb5_cc_close cc w)) =
     (if Ccache cc \<in> set (held w) then remove1 (Ccache cc) (held w) else held w)"
  "invalid_free (snd (krb5_cc_close cc w)) = (Ccache cc \<in> set (held w) \<longrightarrow> invalid_free w)"
  "files (snd (krb5_cc_close cc w)) = files w"
  "issued (snd (krb5_cc_close cc w)) = issued w"
  "trace (snd (krb5_cc_close cc w)) = trace w @ [Krb5_cc_close cc]"
  by (simp_all add: krb5_cc_close_def next_code_def)

lemma free_principal_effect [simp]:
  "held (krb5_free_principal p w) =
     (if Principal p \<in> set (held w) then remove1 (Principal p) (held w) else held w)"
  "invalid_free (krb5_free_principal p w) = (Principal p \<in> set (held w) \<longrightarrow> invalid_free w)"
  "files (krb5_free_principal p w) = files w"
  "issued (krb5_free_principal p w) = issued w"
  "trace (krb5_free_principal p w) = trace w @ [Krb5_free_principal p]"
  by (simp_all add: krb5_free_principal_def)

lemma free_cred_contents_effect [simp]:
  "held (krb5_free_cred_contents None w) = held w"
  "held (krb5_free_cred_contents (Some c) w) =
     (if Cred_contents \<in> set (held w) then remove1 Cred_contents (held w) else held w)"
  "invalid_free (krb5_free_cred_contents None w) = invalid_free w"
  "invalid_free (krb5_free_cred_contents (Some c) w) =
     (Cred_contents \<in> set (held w) \<longrightarrow> invalid_free w)"
  "files (krb5_free_cred_contents cr w) = files w"
  "issued (krb5_free_cred_contents cr w) = issued w"
  "trace (krb5_free_cred_contents cr w) = trace w @ [Krb5_free_cred_contents]"
  by (simp_all add: krb5_free_cred_contents_def Let_def split: option.splits)

subsection \<open>The parts of \<^verbatim>\<open>renew\<close>\<close>

lemma renew_verbose_effect [simp]:
  "held (renew_verbose cfg u w) = held w"
  "invalid_free (renew_verbose cfg u w) = invalid_free w"
  "files (renew_verbose cfg u w) = files w"
  "issued (renew_verbose cfg u w) = issued w"
  by (simp_all add: renew_verbose_def krb5_unparse_name_def krb5_free_unparsed_name_def
      next_code_def)

lemma renew_done_held:
  "held w = (case creds of None \<Rightarrow> [] | Some c \<Rightarrow> [Cred_contents]) @ Principal u # Ccache cc # h \<Longrightarrow>
   held (world_of (renew_done (Some cc) (Some u) True creds code w)) = h \<and>
   invalid_free (world_of (renew_done (Some cc) (Some u) True creds code w)) = invalid_free w"
  by (cases creds) (simp_all add: renew_done_def)

lemma renew_request_held:
  assumes "held w = Principal u # Ccache cc # h"
  shows "held (world_of (renew_request cc u w)) = h \<and>
         invalid_free (world_of (renew_request cc u w)) = invalid_free w"
  using assms
  by (simp add: renew_request_def renew_done_held split_def split: sum.splits)

lemma renew_verbose_trace:
  "\<exists>vs. verbose_calls u vs \<and> trace (renew_verbose cfg u w) = trace w @ vs"
  by (simp add: renew_verbose_def krb5_unparse_name_def krb5_free_unparsed_name_def
      next_code_def verbose_calls_def)

lemma renew_request_success:
  assumes "renew_request cc u w = Return 0 w'" and "files w cc = Some f"
  shows "files w' = (files w)(cc \<mapsto> \<lparr>mode = 384, content = Some \<lparr>primary = u,
                       tickets = [\<lparr>client = u, serial = issued w\<rparr>]\<rparr>\<rparr>) \<and>
         trace w' = trace w @ [Krb5_get_renewed_creds u cc, Krb5_cc_initialize cc u,
            Krb5_cc_store_cred cc \<lparr>client = u, serial = issued w\<rparr>, Krb5_cc_close cc,
            Krb5_free_principal u, Krb5_free_cred_contents] \<and>
         issued w' = Suc (issued w)"
proof -
  obtain cr where cr: "fst (krb5_get_renewed_creds u cc w) = Inr cr"
    using assms(1)
    by (auto simp: renew_request_def renew_done_def split_def Let_def
        split: sum.splits if_splits)
  define w1 where "w1 = snd (krb5_get_renewed_creds u cc w)"
  define w2 where "w2 = snd (krb5_cc_initialize cc u w1)"
  define w3 where "w3 = snd (krb5_cc_store_cred cc cr w2)"
  from assms(1) cr have i: "fst (krb5_cc_initialize cc u w1) = 0"
    and s: "fst (krb5_cc_store_cred cc cr w2) = 0"
    and w': "renew_done (Some cc) (Some u) True (Some cr) 0 w3 = Return 0 w'"
    by (auto simp: renew_request_def renew_done_def split_def Let_def w1_def w2_def w3_def
        split: sum.splits if_splits)
  from get_renewed_Inr[OF cr] have crv: "cr = \<lparr>client = u, serial = issued w\<rparr>"
    and iss: "issued w1 = Suc (issued w)"
    by (simp_all add: w1_def)
  have f1: "files w1 = files w" by (simp add: w1_def)
  have f2: "files w2 = (files w)(cc \<mapsto> \<lparr>mode = 384,
              content = Some \<lparr>primary = u, tickets = []\<rparr>\<rparr>)"
    using initialize_ok[OF i] assms(2) f1 by (simp add: w2_def)
  have f3: "files w3 = (files w)(cc \<mapsto> \<lparr>mode = 384,
              content = Some \<lparr>primary = u, tickets = [cr]\<rparr>\<rparr>)"
    using store_ok[OF s, of "\<lparr>mode = 384, content = Some \<lparr>primary = u, tickets = []\<rparr>\<rparr>"
        "\<lparr>primary = u, tickets = []\<rparr>"] f2
    by (simp add: w3_def)
  have t3: "trace w3 = trace w @ [Krb5_get_renewed_creds u cc, Krb5_cc_initialize cc u,
              Krb5_cc_store_cred cc cr]"
    by (simp add: w3_def w2_def w1_def)
  have i3: "issued w3 = Suc (issued w)"
    using iss by (simp add: w3_def w2_def)
  from w' have "w' = krb5_free_cred_contents (Some cr)
                       (krb5_free_principal u (snd (krb5_cc_close cc w3)))"
    by (simp add: renew_done_def)
  then show ?thesis using f3 t3 i3 crv by simp
qed

lemmas library_defs =
  krb5_cc_resolve_def krb5_cc_get_principal_def krb5_unparse_name_def
  krb5_free_unparsed_name_def krb5_get_renewed_creds_def krb5_cc_initialize_def
  krb5_cc_store_cred_def krb5_cc_close_def krb5_free_principal_def
  krb5_free_cred_contents_def next_code_def peek_code_def advance_def record_call_def
  acquire_def release_def warn_def warn_krb5_def notice_def

lemmas renew_defs = renew_def renew_request_def renew_verbose_def renew_done_def

lemmas example_defs =
  example_config_def zero_config_def example_world_def example_convert_def
  example_environment_def

subsection \<open>Renewal keeps the identity\<close>

text \<open>
  C1.  When \<^verbatim>\<open>renew\<close> returns 0, the cache named in the configuration held a
  principal before the call, and after the call it holds exactly one ticket: the one
  that was just issued (its serial number is the first that was not issued before), for
  that same principal, which is also the primary principal of the cache.  No other file
  has changed.  The calls were, in this order: resolve the cache, read its principal,
  (report it when verbose,) request renewed credentials for that principal, initialise
  the cache for that principal, store the renewed credentials, and release the three
  resources.
\<close>

theorem renew_success_identity:
  assumes "renew cfg st w = Return 0 w'"
  shows "\<exists>name f d vs. cache cfg = Some name \<and> verbose_calls (primary d) vs \<and>
           files w name = Some f \<and> content f = Some d \<and>
           files w' = (files w)(name \<mapsto> \<lparr>mode = 384, content = Some \<lparr>primary = primary d,
                         tickets = [\<lparr>client = primary d, serial = issued w\<rparr>]\<rparr>\<rparr>) \<and>
           trace w' = trace w @ [Krb5_cc_resolve name, Krb5_cc_get_principal name] @ vs @
             [Krb5_get_renewed_creds (primary d) name, Krb5_cc_initialize name (primary d),
              Krb5_cc_store_cred name \<lparr>client = primary d, serial = issued w\<rparr>,
              Krb5_cc_close name, Krb5_free_principal (primary d), Krb5_free_cred_contents]"
proof -
  from assms obtain name where name: "cache cfg = Some name"
    by (auto simp: renew_def Let_def split: option.splits if_splits)
  define w1 where "w1 = snd (krb5_cc_resolve name w)"
  define w2 where "w2 = snd (krb5_cc_get_principal name w1)"
  from assms name obtain cc where cc: "fst (krb5_cc_resolve name w) = Inr cc"
    by (auto simp: renew_def split_def Let_def split: sum.splits if_splits)
  then have [simp]: "cc = name" by (rule resolve_handle)
  from assms name cc obtain u where u: "fst (krb5_cc_get_principal name w1) = Inr u"
    and rq: "renew_request name u (renew_verbose cfg u w2) = Return 0 w'"
    by (auto simp: renew_def split_def Let_def w1_def w2_def split: sum.splits if_splits)
  from get_principal_Inr[OF u] obtain f d
    where fd: "files w name = Some f" "content f = Some d" "primary d = u"
    by (auto simp: w1_def)
  obtain vs where vs: "verbose_calls u vs" "trace (renew_verbose cfg u w2) = trace w2 @ vs"
    using renew_verbose_trace by blast
  have "files (renew_verbose cfg u w2) name = Some f"
    using fd by (simp add: w2_def w1_def)
  from renew_request_success[OF rq this] vs fd name show ?thesis
    by (auto simp: w2_def w1_def intro!: exI[of _ name] exI[of _ f] exI[of _ d] exI[of _ vs])
qed

theorem renew_success_identity_witness:
  "renew example_config 0 example_world =
     Return 0 (world_of (renew example_config 0 example_world)) \<and>
   files example_world ''/tmp/krb5cc_1000'' =
     Some \<lparr>mode = 384, content = Some \<lparr>primary = ''alice@EXAMPLE.ORG'',
             tickets = [\<lparr>client = ''alice@EXAMPLE.ORG'', serial = 0\<rparr>]\<rparr>\<rparr> \<and>
   files (world_of (renew example_config 0 example_world)) ''/tmp/krb5cc_1000'' =
     Some \<lparr>mode = 384, content = Some \<lparr>primary = ''alice@EXAMPLE.ORG'',
             tickets = [\<lparr>client = ''alice@EXAMPLE.ORG'', serial = 1\<rparr>]\<rparr>\<rparr> \<and>
   trace (world_of (renew example_config 0 example_world)) =
     [Krb5_cc_resolve ''/tmp/krb5cc_1000'', Krb5_cc_get_principal ''/tmp/krb5cc_1000'',
      Krb5_get_renewed_creds ''alice@EXAMPLE.ORG'' ''/tmp/krb5cc_1000'',
      Krb5_cc_initialize ''/tmp/krb5cc_1000'' ''alice@EXAMPLE.ORG'',
      Krb5_cc_store_cred ''/tmp/krb5cc_1000'' \<lparr>client = ''alice@EXAMPLE.ORG'', serial = 1\<rparr>,
      Krb5_cc_close ''/tmp/krb5cc_1000'', Krb5_free_principal ''alice@EXAMPLE.ORG'',
      Krb5_free_cred_contents]"
proof -
  have h: "renew example_config 0 example_world =
             Return 0 (world_of (renew example_config 0 example_world))"
    by (simp add: renew_defs library_defs example_defs Let_def)
  have c: "cache example_config = Some ''/tmp/krb5cc_1000''"
    and f: "files example_world ''/tmp/krb5cc_1000'' =
     Some \<lparr>mode = 384, content = Some \<lparr>primary = ''alice@EXAMPLE.ORG'',
             tickets = [\<lparr>client = ''alice@EXAMPLE.ORG'', serial = 0\<rparr>]\<rparr>\<rparr>"
    and i: "issued example_world = 1"
    by (simp_all add: example_defs)
  from renew_success_identity[OF h] obtain name fl d where
    r: "cache example_config = Some name" "files example_world name = Some fl"
      "content fl = Some d"
      "files (world_of (renew example_config 0 example_world)) =
        (files example_world)(name \<mapsto> \<lparr>mode = 384, content = Some \<lparr>primary = primary d,
           tickets = [\<lparr>client = primary d, serial = issued example_world\<rparr>]\<rparr>\<rparr>)"
    by blast
  from r c f i have "files (world_of (renew example_config 0 example_world)) ''/tmp/krb5cc_1000'' =
     Some \<lparr>mode = 384, content = Some \<lparr>primary = ''alice@EXAMPLE.ORG'',
             tickets = [\<lparr>client = ''alice@EXAMPLE.ORG'', serial = 1\<rparr>]\<rparr>\<rparr>"
    by auto
  moreover have "trace (world_of (renew example_config 0 example_world)) =
     [Krb5_cc_resolve ''/tmp/krb5cc_1000'', Krb5_cc_get_principal ''/tmp/krb5cc_1000'',
      Krb5_get_renewed_creds ''alice@EXAMPLE.ORG'' ''/tmp/krb5cc_1000'',
      Krb5_cc_initialize ''/tmp/krb5cc_1000'' ''alice@EXAMPLE.ORG'',
      Krb5_cc_store_cred ''/tmp/krb5cc_1000'' \<lparr>client = ''alice@EXAMPLE.ORG'', serial = 1\<rparr>,
      Krb5_cc_close ''/tmp/krb5cc_1000'', Krb5_free_principal ''alice@EXAMPLE.ORG'',
      Krb5_free_cred_contents]"
    by (simp add: renew_defs library_defs example_defs Let_def)
  ultimately show ?thesis using h f by simp
qed

subsection \<open>Renewal gives back what it took\<close>

text \<open>
  C8.  Whatever \<^verbatim>\<open>renew\<close> does (it returns a code, it calls \<^verbatim>\<open>exit_cleanup\<close>),
  and whichever calls of the library fail, the resources that the library handed out
  during the call (the cache handle, the principal, the contents of the renewed
  credentials, the unparsed name) were all given back when it ends, and nothing was
  given back that was not held: each was released exactly once.
\<close>

theorem renew_releases_resources:
  "held (world_of (renew cfg st w)) = held w \<and>
   invalid_free (world_of (renew cfg st w)) = invalid_free w"
  by (auto simp add: renew_def renew_request_held split_def Let_def warn_def
      dest: resolve_handle split: sum.splits option.splits)

subsection \<open>A prior status that cannot be retried\<close>

text \<open>
  C4 (amended).  When the prior status is neither 0 nor the ticket-expired code,
  \<^verbatim>\<open>renew\<close> makes no call to the library: the world changes by one warning only.
  If \<^verbatim>\<open>ignore_errors\<close> is set it returns that status to its caller; if not, it does
  not return: it calls \<^verbatim>\<open>exit_cleanup\<close> with status 1 itself.
\<close>

theorem renew_prior_failure:
  assumes "status \<noteq> 0" and "status \<noteq> KRB5KRB_AP_ERR_TKT_EXPIRED"
  shows "renew config status w =
     (if ignore_errors config then Return status else Exit_cleanup 1)
       (record_call
          (if status = KRB5KDC_ERR_KEY_EXP
           then Warn ''ticket cannot be renewed for long enough''
           else Warn_krb5 status ''error reading ticket cache'') w)"
  using assms by (simp add: renew_def warn_def warn_krb5_def)

theorem renew_prior_failure_witness:
  "KRB5KDC_ERR_KEY_EXP \<noteq> 0 \<and> KRB5KDC_ERR_KEY_EXP \<noteq> KRB5KRB_AP_ERR_TKT_EXPIRED \<and>
   renew (example_config\<lparr>ignore_errors := True\<rparr>) KRB5KDC_ERR_KEY_EXP example_world =
     Return KRB5KDC_ERR_KEY_EXP
       (record_call (Warn ''ticket cannot be renewed for long enough'') example_world)"
proof -
  have h1: "KRB5KDC_ERR_KEY_EXP \<noteq> 0"
    and h2: "KRB5KDC_ERR_KEY_EXP \<noteq> KRB5KRB_AP_ERR_TKT_EXPIRED"
    by (simp_all add: KRB5KDC_ERR_KEY_EXP_def KRB5KRB_AP_ERR_TKT_EXPIRED_def)
  from renew_prior_failure[OF h1 h2, of "example_config\<lparr>ignore_errors := True\<rparr>" example_world] h1 h2
  show ?thesis by simp
qed

text \<open>
  C4 as the specification states it (the status is returned and the caller decides)
  fails for a configuration without \<^verbatim>\<open>-i\<close>: \<^verbatim>\<open>renew\<close> does not return.
\<close>

theorem renew_prior_failure_counterexample:
  "KRB5KDC_ERR_KEY_EXP \<noteq> 0 \<and> KRB5KDC_ERR_KEY_EXP \<noteq> KRB5KRB_AP_ERR_TKT_EXPIRED \<and>
   renew example_config KRB5KDC_ERR_KEY_EXP example_world =
     Exit_cleanup 1 (record_call (Warn ''ticket cannot be renewed for long enough'') example_world)"
  by (simp add: renew_def warn_def example_config_def zero_config_def KRB5KDC_ERR_KEY_EXP_def KRB5KRB_AP_ERR_TKT_EXPIRED_def)

subsection \<open>A cache that is not available\<close>

lemma renew_cache_unavailable:
  assumes "st = 0 \<or> st = KRB5KRB_AP_ERR_TKT_EXPIRED" and "cache_unavailable config w code"
  shows "code \<noteq> 0 \<and> (\<exists>w1. renew config st w = (if ignore_errors config then Return code w1 else Exit_cleanup 1 w1) \<and>
     (\<exists>cs. trace w1 = trace w @ cs \<and> \<not> list_ex (\<lambda>c. case c of Krb5_get_renewed_creds u cc \<Rightarrow> True | _ \<Rightarrow> False) cs))"
  using assms
  by (auto simp: renew_def cache_unavailable_def split_def Let_def split: option.splits sum.splits dest: resolve_handle)

text \<open>
  C2.  When the cache cannot be resolved or no principal can be read from it, the code
  of the failing call is not 0, and: without \<^verbatim>\<open>ignore_errors\<close>, \<^verbatim>\<open>renew\<close> calls
  \<^verbatim>\<open>exit_cleanup\<close> with status 1, so the run ends there through the cleanup with that
  status; with \<^verbatim>\<open>ignore_errors\<close>, \<^verbatim>\<open>renew\<close> returns the code, and the loop of the
  framework goes on with the next event.
\<close>

theorem renew_cache_unavailable_policy:
  assumes "st = 0 \<or> st = KRB5KRB_AP_ERR_TKT_EXPIRED" and "cache_unavailable config w code"
  shows "code \<noteq> 0 \<and>
     (\<not> ignore_errors config \<longrightarrow>
        (\<exists>w1. renew config st w = Exit_cleanup 1 w1 \<and>
              (\<forall>es. running config (Wake st # es) w = exit_cleanup config 1 w1))) \<and>
     (ignore_errors config \<longrightarrow>
        (\<exists>w1. renew config st w = Return code w1 \<and>
              (\<forall>es. running config (Wake st # es) w = running config es w1)))"
proof -
  from renew_cache_unavailable[OF assms] obtain w1 cs where
    c: "code \<noteq> 0" and r: "renew config st w = (if ignore_errors config then Return code w1 else Exit_cleanup 1 w1)"
    and t: "trace w1 = trace w @ cs" "\<not> list_ex (\<lambda>c. case c of Krb5_get_renewed_creds u cc \<Rightarrow> True | _ \<Rightarrow> False) cs"
    by blast
  have a: "attempt_result st code cs = CacheUnavailable code"
    using assms(1) c t(2) by (auto simp: attempt_result_def)
  show ?thesis using c r t(1) a by (auto simp: keep_running_def)
qed

theorem renew_cache_unavailable_policy_witness:
  "((0::int) = 0 \<or> (0::int) = KRB5KRB_AP_ERR_TKT_EXPIRED) \<and>
   cache_unavailable example_config (example_world\<lparr>files := Map.empty\<rparr>) KRB5_FCC_NOFILE \<and>
   \<not> ignore_errors example_config \<and>
   (\<exists>w1. renew example_config 0 (example_world\<lparr>files := Map.empty\<rparr>) = Exit_cleanup 1 w1 \<and>
      (\<forall>es. running example_config (Wake 0 # es) (example_world\<lparr>files := Map.empty\<rparr>) =
              exit_cleanup example_config 1 w1)) \<and>
   cache_unavailable (example_config\<lparr>ignore_errors := True\<rparr>) (example_world\<lparr>faults := [5]\<rparr>) 5 \<and>
   ignore_errors (example_config\<lparr>ignore_errors := True\<rparr>) \<and>
   (\<exists>w1. renew (example_config\<lparr>ignore_errors := True\<rparr>) 0 (example_world\<lparr>faults := [5]\<rparr>) = Return 5 w1 \<and>
      (\<forall>es. running (example_config\<lparr>ignore_errors := True\<rparr>) (Wake 0 # es) (example_world\<lparr>faults := [5]\<rparr>) =
              running (example_config\<lparr>ignore_errors := True\<rparr>) es w1))"
proof -
  have h1: "(0::int) = 0 \<or> (0::int) = KRB5KRB_AP_ERR_TKT_EXPIRED" by simp
  have h2: "cache_unavailable example_config (example_world\<lparr>files := Map.empty\<rparr>) KRB5_FCC_NOFILE"
    by (simp add: cache_unavailable_def library_defs example_defs Let_def)
  have h3: "\<not> ignore_errors example_config" by (simp add: example_defs)
  have h4: "cache_unavailable (example_config\<lparr>ignore_errors := True\<rparr>) (example_world\<lparr>faults := [5]\<rparr>) 5"
    by (simp add: cache_unavailable_def library_defs example_defs Let_def)
  have h5: "ignore_errors (example_config\<lparr>ignore_errors := True\<rparr>)" by simp
  from renew_cache_unavailable_policy[OF h1 h2] renew_cache_unavailable_policy[OF h1 h4] h1 h2 h3 h4 h5
  show ?thesis by blast
qed

subsection \<open>Copying the cache\<close>

lemma lowest_free_Some: "lowest_free w = Some n \<Longrightarrow> fds w n = None \<and> n < open_max w"
  by (auto simp: lowest_free_def find_Some_iff)

lemma mkstemp_trace [simp]: "trace (snd (mkstemp t w)) = trace w @ [Mkstemp t]"
  and mkstemp_held [simp]: "held (snd (mkstemp t w)) = held w"
  and mkstemp_invalid_free [simp]: "invalid_free (snd (mkstemp t w)) = invalid_free w"
  by (simp_all add: mkstemp_def next_code_def Let_def split: option.splits prod.splits)

lemma mkstemp_frame:
  assumes "mkstemp t w = (r, w1)"
  shows "trace w1 = trace w @ [Mkstemp t]" and "held w1 = held w"
    and "invalid_free w1 = invalid_free w"
  using mkstemp_trace[of t w] mkstemp_held[of t w] mkstemp_invalid_free[of t w] assms
  by simp_all

lemma mkstemp_ok:
  assumes "mkstemp t w = ((name, fd), w1)" and "0 \<le> fd"
  shows "\<exists>s. name = take (length t - 6) t @ s \<and> length s = 6 \<and> files w name = None \<and>
           fds w (nat fd) = None \<and>
           files w1 = (files w)(name \<mapsto> \<lparr>mode = 384, content = None\<rparr>) \<and>
           fds w1 = (fds w)(nat fd \<mapsto> name)"
  using assms
  by (auto simp: mkstemp_def next_code_def Let_def find_Some_iff dest!: lowest_free_Some
      split: option.splits if_splits)

lemma fchmod_effect [simp]:
  "trace (snd (fchmod fd m w)) = trace w @ [Fchmod fd m]"
  "held (snd (fchmod fd m w)) = held w"
  "invalid_free (snd (fchmod fd m w)) = invalid_free w"
  "fds (snd (fchmod fd m w)) = fds w"
  by (simp_all add: fchmod_def next_code_def Let_def split: option.splits)

lemma fchmod_ok:
  assumes "\<not> fst (fchmod fd m w) < 0" and "0 \<le> fd" and "fds w (nat fd) = Some path" and "files w path = Some f"
  shows "files (snd (fchmod fd m w)) = (files w)(path \<mapsto> f\<lparr>mode := m\<rparr>)"
  using assms by (auto simp: fchmod_def next_code_def Let_def split: option.splits if_splits)

lemma copy_cache_effect [simp]:
  "trace (snd (krb5_cc_copy_cache a b w)) = trace w @ [Krb5_cc_copy_cache a b]"
  "held (snd (krb5_cc_copy_cache a b w)) = held w"
  "invalid_free (snd (krb5_cc_copy_cache a b w)) = invalid_free w"
  by (simp_all add: krb5_cc_copy_cache_def next_code_def Let_def split: option.splits)

lemma copy_cache_ok:
  assumes "fst (krb5_cc_copy_cache a b w) = 0" and "files w a = Some fa" and "content fa = Some da"
    and "files w b = Some fb" and "content fb = Some db"
  shows "files (snd (krb5_cc_copy_cache a b w)) =
     (files w)(b \<mapsto> fb\<lparr>content := Some (db\<lparr>tickets := tickets db @ tickets da\<rparr>)\<rparr>)"
  using assms by (auto simp: krb5_cc_copy_cache_def next_code_def Let_def split: if_splits)

lemma die_simps [simp]:
  "die m w \<noteq> Return x w'" "sysdie m w \<noteq> Return x w'" "die_krb5 c m w \<noteq> Return x w'"
  by (simp_all add: die_def sysdie_def die_krb5_def)

lemma copy_cache_Return:
  assumes "copy_cache old w = Return (name, new) w'"
  shows "\<exists>suffix fd f d.
     name = ''/tmp/krb5cc_'' @ show_int (sint (uid w)) @ ''_'' @ suffix \<and> length suffix = 6 \<and>
     files w name = None \<and> new = name \<and>
     files w old = Some f \<and> content f = Some d \<and>
     files w' = (files w)(name \<mapsto>
        \<lparr>mode = 384, content = Some \<lparr>primary = primary d, tickets = tickets d\<rparr>\<rparr>) \<and>
     trace w' = trace w @
       [Mkstemp (''/tmp/krb5cc_'' @ show_int (sint (uid w)) @ ''_XXXXXX''), Fchmod fd 384,
        Krb5_cc_resolve name, Krb5_cc_get_principal old,
        Krb5_cc_initialize name (primary d), Krb5_free_principal (primary d),
        Krb5_cc_copy_cache old name, Krb5_cc_close old] \<and>
     held w' = Ccache name # remove1 (Ccache old) (held w)"
proof -
  let ?t = "''/tmp/krb5cc_'' @ show_int (sint (uid w)) @ ''_XXXXXX''"
  obtain nm fd w1 where m: "mkstemp ?t w = ((nm, fd), w1)"
    by (metis prod.exhaust)
  define w2 where "w2 = snd (fchmod fd 384 w1)"
  define w3 where "w3 = snd (krb5_cc_resolve nm w2)"
  define w4 where "w4 = snd (krb5_cc_get_principal old w3)"
  from assms m have fd: "0 \<le> fd" and ch: "\<not> fst (fchmod fd 384 w1) < 0"
    by (auto simp: copy_cache_def getuid_def split_def Let_def split: if_splits)
  from assms m fd ch obtain cc where cc: "fst (krb5_cc_resolve nm w2) = Inr cc"
    by (auto simp: copy_cache_def getuid_def split_def Let_def w2_def split: if_splits sum.splits)
  then have ccn: "cc = nm" by (rule resolve_handle)
  from assms m fd ch cc ccn obtain p where p: "fst (krb5_cc_get_principal old w3) = Inr p"
    by (auto simp: copy_cache_def getuid_def split_def Let_def w2_def w3_def split: if_splits sum.splits)
  define w5 where "w5 = snd (krb5_cc_initialize nm p w4)"
  define w6 where "w6 = krb5_free_principal p w5"
  define w7 where "w7 = snd (krb5_cc_copy_cache old nm w6)"
  from assms m fd ch cc ccn p have i: "fst (krb5_cc_initialize nm p w4) = 0"
    and c: "fst (krb5_cc_copy_cache old nm w6) = 0"
    and r: "name = nm" "new = nm" "w' = snd (krb5_cc_close old w7)"
    by (auto simp: copy_cache_def getuid_def split_def Let_def w2_def w3_def w4_def w5_def w6_def w7_def
        split: if_splits sum.splits)
  from mkstemp_ok[OF m fd] obtain s where s: "nm = take (length ?t - 6) ?t @ s" "length s = 6"
    "files w nm = None" "fds w (nat fd) = None"
    "files w1 = (files w)(nm \<mapsto> \<lparr>mode = 384, content = None\<rparr>)" "fds w1 = (fds w)(nat fd \<mapsto> nm)"
    by blast
  have nm: "nm = ''/tmp/krb5cc_'' @ show_int (sint (uid w)) @ ''_'' @ s"
    using s(1) by simp
  have f2: "files w2 = (files w)(nm \<mapsto> \<lparr>mode = 384, content = None\<rparr>)"
    using fchmod_ok[OF ch fd, of nm "\<lparr>mode = 384, content = None\<rparr>"] s(5,6) by (simp add: w2_def)
  have f4: "files w4 = files w2" by (simp add: w4_def w3_def)
  from get_principal_Inr[OF p] obtain f d where fd': "files w3 old = Some f" "content f = Some d" "primary d = p"
    by blast
  then have old: "old \<noteq> nm" "files w old = Some f"
    using f2 by (auto simp: w3_def split: if_splits)
  have f5: "files w5 = (files w)(nm \<mapsto> \<lparr>mode = 384, content = Some \<lparr>primary = p, tickets = []\<rparr>\<rparr>)"
    using initialize_ok[OF i] f4 f2 by (simp add: w5_def)
  have f6: "files w6 = files w5" by (simp add: w6_def)
  have f7: "files w7 = (files w)(nm \<mapsto> \<lparr>mode = 384, content = Some \<lparr>primary = p, tickets = tickets d\<rparr>\<rparr>)"
    using copy_cache_ok[OF c, of f d "\<lparr>mode = 384, content = Some \<lparr>primary = p, tickets = []\<rparr>\<rparr>" "\<lparr>primary = p, tickets = []\<rparr>"]
      f6 f5 old fd'(2) by (simp add: w7_def)
  have t7: "trace w7 = trace w @ [Mkstemp ?t, Fchmod fd 384, Krb5_cc_resolve nm, Krb5_cc_get_principal old,
       Krb5_cc_initialize nm p, Krb5_free_principal p, Krb5_cc_copy_cache old nm]"
    using mkstemp_frame(1)[OF m] by (simp add: w7_def w6_def w5_def w4_def w3_def w2_def)
  have h1: "held w1 = held w" by (rule mkstemp_frame(2)[OF m])
  have h7: "held w7 = Ccache nm # held w"
    using cc p h1 by (simp add: w7_def w6_def w5_def w4_def w3_def w2_def)
  have h8: "held w' = Ccache nm # remove1 (Ccache old) (held w)"
    using h7 old(1) r(3) by (auto simp: remove1_idem)
  show ?thesis
    using nm s(2,3) r f7 t7 h8 old(2) fd'(2,3)
    by (intro exI[of _ s] exI[of _ fd] exI[of _ f] exI[of _ d]) simp
qed

text \<open>
  C5.  When \<^verbatim>\<open>copy_cache\<close> returns, it has made these calls in this order: create a
  file under a name that no file had (the template with its six \<^verbatim>\<open>X\<close> replaced), set
  its mode to 0600 (384), resolve the new name, read the principal of the old cache,
  initialise the new cache for that principal, free the principal, copy the tickets of
  the old cache, close the old handle.  The new file has mode 0600 and holds the
  principal and the tickets of the old cache; no other file has changed.  The result is
  the new name and a handle to the new cache, which is held, and the old handle is held
  no more.
\<close>

theorem copy_cache_duplicates:
  assumes "copy_cache old w = Return (name, new) w'"
  shows "\<exists>suffix fd f d.
     name = ''/tmp/krb5cc_'' @ show_int (sint (uid w)) @ ''_'' @ suffix \<and> length suffix = 6 \<and>
     files w name = None \<and> new = name \<and>
     files w old = Some f \<and> content f = Some d \<and>
     files w' = (files w)(name \<mapsto>
        \<lparr>mode = 384, content = Some \<lparr>primary = primary d, tickets = tickets d\<rparr>\<rparr>) \<and>
     trace w' = trace w @
       [Mkstemp (''/tmp/krb5cc_'' @ show_int (sint (uid w)) @ ''_XXXXXX''), Fchmod fd 384,
        Krb5_cc_resolve name, Krb5_cc_get_principal old,
        Krb5_cc_initialize name (primary d), Krb5_free_principal (primary d),
        Krb5_cc_copy_cache old name, Krb5_cc_close old] \<and>
     held w' = Ccache name # remove1 (Ccache old) (held w)"
  using assms by (rule copy_cache_Return)

lemmas copy_defs = copy_cache_def mkstemp_def fchmod_def krb5_cc_copy_cache_def getuid_def
  show_int_def decimal.simps lowest_free_def upt_rec die_def sysdie_def die_krb5_def

theorem copy_cache_duplicates_witness:
  "copy_cache ''/tmp/krb5cc_1000'' example_world =
     Return (''/tmp/krb5cc_1000_Ab3xYz'', ''/tmp/krb5cc_1000_Ab3xYz'')
       (world_of (copy_cache ''/tmp/krb5cc_1000'' example_world)) \<and>
   files example_world ''/tmp/krb5cc_1000_Ab3xYz'' = None \<and>
   files (world_of (copy_cache ''/tmp/krb5cc_1000'' example_world)) ''/tmp/krb5cc_1000_Ab3xYz'' =
     Some \<lparr>mode = 384, content = Some \<lparr>primary = ''alice@EXAMPLE.ORG'',
             tickets = [\<lparr>client = ''alice@EXAMPLE.ORG'', serial = 0\<rparr>]\<rparr>\<rparr> \<and>
   held (world_of (copy_cache ''/tmp/krb5cc_1000'' example_world)) =
     [Ccache ''/tmp/krb5cc_1000_Ab3xYz'']"
proof -
  have h: "copy_cache ''/tmp/krb5cc_1000'' example_world =
     Return (''/tmp/krb5cc_1000_Ab3xYz'', ''/tmp/krb5cc_1000_Ab3xYz'')
       (world_of (copy_cache ''/tmp/krb5cc_1000'' example_world))"
    by (simp add: copy_defs library_defs example_defs Let_def)
  have f: "files example_world ''/tmp/krb5cc_1000'' =
      Some \<lparr>mode = 384, content = Some \<lparr>primary = ''alice@EXAMPLE.ORG'',
             tickets = [\<lparr>client = ''alice@EXAMPLE.ORG'', serial = 0\<rparr>]\<rparr>\<rparr>"
    "held example_world = []"
    by (simp_all add: example_defs)
  from copy_cache_duplicates[OF h] f h show ?thesis
    by auto
qed

subsection \<open>Checking the options\<close>

lemma check_arguments_cases:
  "(constraint_violated config \<longrightarrow> (\<exists>msg. check_arguments config w = Exit 1 (record_call (Die msg) w))) \<and>
   (\<not> constraint_violated config \<longrightarrow> check_arguments config w = Return () w)"
  by (auto simp: check_arguments_def constraint_violated_def die_def Let_def)

text \<open>
  C6 (amended).  Once the options are parsed, \<^verbatim>\<open>main\<close> ends with \<^verbatim>\<open>die\<close> (status
  1, nothing done but the message: no Kerberos context, no file) exactly when
  \<^verbatim>\<open>-a\<close> or \<^verbatim>\<open>-b\<close> is given without an interval and without a command, or \<^verbatim>\<open>-H\<close>
  is given with a command, or \<^verbatim>\<open>-c\<close> or \<^verbatim>\<open>-s\<close> is given without a command.
  Otherwise the check passes.
\<close>

theorem startup_validation:
  assumes "parse_options convert_number opts zero_config w = Return config0 w1"
    and "config = (if args \<noteq> [] then config0\<lparr>command := Some args\<rparr> else config0)"
  shows "(constraint_violated config \<longrightarrow>
            (\<exists>msg. check_arguments config w1 = Exit 1 (record_call (Die msg) w1) \<and>
                   main convert_number opts args w = Exit 1 (record_call (Die msg) w1))) \<and>
         (\<not> constraint_violated config \<longrightarrow> check_arguments config w1 = Return () w1)"
proof (cases "constraint_violated config")
  case True
  then obtain msg where m: "check_arguments config w1 = Exit 1 (record_call (Die msg) w1)"
    using check_arguments_cases by blast
  then have "main convert_number opts args w = Exit 1 (record_call (Die msg) w1)"
    using assms by (simp add: main_def and_then_def Let_def)
  with True m show ?thesis by blast
next
  case False
  then show ?thesis using check_arguments_cases by blast
qed

lemmas setup_defs =
  main_def and_then_def check_arguments_def open_cache_def set_cache_def
  krb5_init_context_def krb5_cc_default_def krb5_cc_get_full_name_def setenv_def

theorem startup_validation_witness:
  "parse_options example_convert [(CHR ''a'', '''')] zero_config example_world =
     Return (zero_config\<lparr>always_renew := True\<rparr>) example_world \<and>
   constraint_violated (zero_config\<lparr>always_renew := True\<rparr>) \<and>
   main example_convert [(CHR ''a'', '''')] [] example_world =
     Exit 1 (record_call (Die ''-a only makes sense with -K or a command to run'') example_world) \<and>
   parse_options example_convert [(CHR ''K'', ''60''), (CHR ''a'', '''')] zero_config example_world =
     Return (zero_config\<lparr>keep_ticket := 60, always_renew := True\<rparr>) example_world \<and>
   \<not> constraint_violated (zero_config\<lparr>keep_ticket := 60, always_renew := True\<rparr>) \<and>
   check_arguments (zero_config\<lparr>keep_ticket := 60, always_renew := True\<rparr>) example_world =
     Return () example_world"
proof -
  have h1: "parse_options example_convert [(CHR ''a'', '''')] zero_config example_world =
     Return (zero_config\<lparr>always_renew := True\<rparr>) example_world" by simp
  have h2: "zero_config\<lparr>always_renew := True\<rparr> =
     (if [] \<noteq> ([] :: string list) then (zero_config\<lparr>always_renew := True\<rparr>)\<lparr>command := Some []\<rparr>
      else zero_config\<lparr>always_renew := True\<rparr>)" by simp
  have v: "constraint_violated (zero_config\<lparr>always_renew := True\<rparr>)"
    by (simp add: constraint_violated_def zero_config_def)
  have h3: "parse_options example_convert [(CHR ''K'', ''60''), (CHR ''a'', '''')] zero_config example_world =
     Return (zero_config\<lparr>keep_ticket := 60, always_renew := True\<rparr>) example_world"
    by (simp add: example_convert_def)
  have h4: "zero_config\<lparr>keep_ticket := 60, always_renew := True\<rparr> =
     (if [] \<noteq> ([] :: string list) then (zero_config\<lparr>keep_ticket := 60, always_renew := True\<rparr>)\<lparr>command := Some []\<rparr>
      else zero_config\<lparr>keep_ticket := 60, always_renew := True\<rparr>)" by simp
  have nv: "\<not> constraint_violated (zero_config\<lparr>keep_ticket := 60, always_renew := True\<rparr>)"
    by (simp add: constraint_violated_def zero_config_def)
  have m: "main example_convert [(CHR ''a'', '''')] [] example_world =
     Exit 1 (record_call (Die ''-a only makes sense with -K or a command to run'') example_world)"
    by (simp add: setup_defs die_def zero_config_def)
  from startup_validation[OF h1 h2] startup_validation[OF h3 h4] h1 h3 v nv m show ?thesis
    by blast
qed

text \<open>
  C6 as the specification states it makes \<^verbatim>\<open>-H\<close> without an interval and without
  a command an error.  It is not: the check passes and \<^verbatim>\<open>main\<close> goes on to the
  framework.
\<close>

theorem startup_validation_counterexample:
  "0 < happy_ticket (zero_config\<lparr>happy_ticket := 10\<rparr>) \<and>
   keep_ticket (zero_config\<lparr>happy_ticket := 10\<rparr>) = 0 \<and>
   command (zero_config\<lparr>happy_ticket := 10\<rparr>) = None \<and>
   parse_options example_convert [(CHR ''H'', ''10'')] zero_config example_world =
     Return (zero_config\<lparr>happy_ticket := 10\<rparr>) example_world \<and>
   check_arguments (zero_config\<lparr>happy_ticket := 10\<rparr>) example_world = Return () example_world \<and>
   main example_convert [(CHR ''H'', ''10'')] [] example_world =
     Return (zero_config\<lparr>happy_ticket := 10, cache := Some ''/tmp/krb5cc_1000''\<rparr>)
       (example_world\<lparr>trace := [Krb5_init_context, Krb5_cc_default,
           Krb5_cc_get_full_name ''/tmp/krb5cc_1000'', Krb5_cc_close ''/tmp/krb5cc_1000'']\<rparr>)"
  by (simp add: setup_defs library_defs example_defs Let_def)

subsection \<open>Limits that are not positive\<close>

lemma parse_options_append:
  "parse_options conv (pre @ rest) cfg w =
     and_then (parse_options conv pre cfg w) (\<lambda>c w'. parse_options conv rest c w')"
  by (induction pre arbitrary: cfg w) (auto simp: and_then_def usage_def die_def Let_def)

lemma parsed_Return [simp]: "parsed w (Return c w)"
  by (auto simp: parsed_def intro!: exI[of _ "[]"])

lemma parsed_usage [simp]: "parsed w (usage st w)"
  by (auto simp: parsed_def usage_def record_call_def parsing_call_def intro!: exI[of _ "[Usage st]"])

lemma parsed_die [simp]: "parsed w (die m w)"
  by (auto simp: parsed_def die_def record_call_def parsing_call_def intro!: exI[of _ "[Die m]"])

lemma parsed_openlog: "parsed (record_call Openlog w) r \<Longrightarrow> parsed w r"
  by (cases r; clarsimp simp: parsed_def record_call_def)
     (rule_tac x = "Openlog # cs" in exI, simp add: parsing_call_def)+

lemma parsed_parse_options: "parsed w (parse_options conv opts cfg w)"
proof (induction opts arbitrary: cfg w)
  case Nil
  show ?case by simp
next
  case (Cons a opts)
  obtain option optarg where a: "a = (option, optarg)" by (cases a)
  have L: "parsed w (parse_options conv opts cfg (record_call Openlog w))"
    by (rule parsed_openlog) (rule Cons.IH)
  show ?case unfolding a using Cons.IH L by (simp add: Let_def)
qed

lemma parsed_trans: "parsed w (Return c w1) \<Longrightarrow> parsed w1 r \<Longrightarrow> parsed w r"
  apply (cases r; clarsimp simp: parsed_def)
   apply (rule_tac x = "cs @ csa" in exI, simp)
  apply (rule_tac x = "cs @ csa" in exI, simp)
  done

text \<open>
  C10.  When \<^verbatim>\<open>-H\<close> or \<^verbatim>\<open>-K\<close> is given with an argument that
  \<^verbatim>\<open>convert_number\<close> turns into a number that is not positive (0 among them), the
  program ends while it parses its options: the world differs from the one at the start
  by calls of \<^verbatim>\<open>openlog\<close>, \<^verbatim>\<open>usage\<close> and \<^verbatim>\<open>die\<close> only, so no Kerberos context
  was made.  When the options before it let the parser reach it, the program ends there
  with \<^verbatim>\<open>die\<close>, status 1 and the message of the option.
\<close>

theorem nonpositive_limit_rejected:
  assumes "option = CHR ''H'' \<or> option = CHR ''K''" and "convert_number optarg 10 \<le> 0"
  shows "\<exists>st cs. main convert_number (pre @ (option, optarg) # post) args w =
                    Exit st (w\<lparr>trace := trace w @ cs\<rparr>) \<and>
                  list_all parsing_call cs \<and>
                  (\<forall>config w1. parse_options convert_number pre zero_config w = Return config w1 \<longrightarrow>
                     main convert_number (pre @ (option, optarg) # post) args w =
                       Exit 1 (record_call
                         (Die (if option = CHR ''H'' then ''-H limit argument %s invalid''
                               else ''-K interval argument %s invalid'')) w1))"
proof -
  let ?die = "Die (if option = CHR ''H'' then ''-H limit argument %s invalid''
                               else ''-K interval argument %s invalid'')"
  have step: "parse_options convert_number ((option, optarg) # post) c w1 = Exit 1 (record_call ?die w1)" for c w1
    using assms by (auto simp: die_def Let_def)
  have p: "parsed w (parse_options convert_number pre zero_config w)"
    by (rule parsed_parse_options)
  show ?thesis
  proof (cases "parse_options convert_number pre zero_config w")
    case (Return c w1)
    have "parse_options convert_number (pre @ (option, optarg) # post) zero_config w =
            Exit 1 (record_call ?die w1)"
      unfolding parse_options_append Return and_then_def by (simp only: outcome.case step)
    then have m: "main convert_number (pre @ (option, optarg) # post) args w = Exit 1 (record_call ?die w1)"
      unfolding main_def and_then_def by (simp only: outcome.case)
    from p Return obtain cs where cs: "w1 = w\<lparr>trace := trace w @ cs\<rparr>" "list_all parsing_call cs"
      by (auto simp: parsed_def)
    have "record_call ?die w1 = w\<lparr>trace := trace w @ (cs @ [?die])\<rparr>"
      using cs(1) by (simp add: record_call_def)
    moreover have "list_all parsing_call (cs @ [?die])"
      using cs(2) by (simp add: parsing_call_def)
    ultimately show ?thesis using m Return by (metis outcome.inject(1))
  next
    case (Exit st w1)
    have "parse_options convert_number (pre @ (option, optarg) # post) zero_config w = Exit st w1"
      unfolding parse_options_append Exit and_then_def by (simp only: outcome.case)
    then have m: "main convert_number (pre @ (option, optarg) # post) args w = Exit st w1"
      unfolding main_def and_then_def by (simp only: outcome.case)
    from p Exit obtain cs where cs: "w1 = w\<lparr>trace := trace w @ cs\<rparr>" "list_all parsing_call cs"
      by (auto simp: parsed_def)
    then show ?thesis using m Exit by auto
  next
    case (Exit_cleanup st w1)
    with p show ?thesis by (simp add: parsed_def)
  next
    case (Crash w1)
    with p show ?thesis by (simp add: parsed_def)
  qed
qed

theorem nonpositive_limit_rejected_witness:
  "(CHR ''K'' = CHR ''H'' \<or> CHR ''K'' = CHR ''K'') \<and> example_convert ''0'' 10 \<le> 0 \<and>
   parse_options example_convert [(CHR ''a'', '''')] zero_config example_world =
     Return (zero_config\<lparr>always_renew := True\<rparr>) example_world \<and>
   main example_convert ([(CHR ''a'', '''')] @ (CHR ''K'', ''0'') # []) [] example_world =
     Exit 1 (record_call (Die ''-K interval argument %s invalid'') example_world)"
proof -
  have h1: "CHR ''K'' = CHR ''H'' \<or> CHR ''K'' = CHR ''K''" by simp
  have h2: "example_convert ''0'' 10 \<le> 0" by (simp add: example_convert_def)
  have h3: "parse_options example_convert [(CHR ''a'', '''')] zero_config example_world =
     Return (zero_config\<lparr>always_renew := True\<rparr>) example_world" by simp
  from nonpositive_limit_rejected[where convert_number = example_convert and optarg = "''0''"
      and option = "CHR ''K''" and pre = "[(CHR ''a'', '''')]" and post = "[]" and args = "[]"
      and w = example_world, OF h1 h2] h1 h2 h3
  show ?thesis by auto
qed

subsection \<open>The standard streams of the daemon\<close>

lemma calls_after_failure_append:
  "\<not> list_ex failed_redirect as \<Longrightarrow> calls_after_failure (as @ bs) = calls_after_failure bs"
  by (induction as) auto

lemma no_failure_calls:
  "\<not> list_ex failed_redirect cs \<Longrightarrow> calls_after_failure cs = []"
  by (induction cs) auto

lemma sys_open_cases:
  assumes "sys_open p w = (r, w1)"
  shows "(r = - 1 \<and> trace w1 = trace w @ [Open p (- 1)] \<and> fds w1 = fds w) \<or>
         (\<exists>n. r = int n \<and> fds w n = None \<and> fds w1 = (fds w)(n \<mapsto> p) \<and>
              trace w1 = trace w @ [Open p (int n)])"
  using assms
  by (auto simp: sys_open_def lowest_free_def find_Some_iff split: if_splits option.splits)

lemma dup2_cases:
  assumes "dup2 a b w = (r, w1)"
  shows "(r = - 1 \<and> trace w1 = trace w @ [Dup2 a b (- 1)] \<and> fds w1 = fds w) \<or>
         (r = b \<and> 0 \<le> b \<and> 0 \<le> a \<and> (\<exists>p. fds w (nat a) = Some p \<and> fds w1 = (fds w)(nat b \<mapsto> p)) \<and>
              trace w1 = trace w @ [Dup2 a b b])"
  using assms
  by (auto simp: dup2_def split: if_splits option.splits)

lemma sys_close_effect [simp]:
  "trace (sys_close fd w) = trace w @ [Close fd]"
  "fds (sys_close fd w) = (if fd < 0 then fds w else (fds w)(nat fd := None))"
  by (simp_all add: sys_close_def)

lemma redirect_streams_Return:
  assumes "redirect_streams w = Return rc w'"
  shows "\<exists>cs. trace w' = trace w @ cs \<and> calls_after_failure cs = [] \<and>
           (list_ex failed_redirect cs \<longrightarrow> rc = - 1) \<and> (rc = 0 \<or> rc = - 1) \<and>
           (rc = 0 \<longrightarrow>
              (\<exists>fd. cs = [Open ''/dev/null'' (int fd), Dup2 (int fd) 0 0, Dup2 (int fd) 1 1, Dup2 (int fd) 2 2] @
                     (if 2 < fd then [Close (int fd)] else [])) \<and>
              fds w' 0 = Some ''/dev/null'' \<and> fds w' 1 = Some ''/dev/null'' \<and> fds w' 2 = Some ''/dev/null'' \<and>
              (\<forall>n. 2 < n \<longrightarrow> fds w' n = fds w n))"
proof -
  obtain r0 w1 where o: "sys_open ''/dev/null'' w = (r0, w1)" by (metis prod.exhaust)
  obtain r1 w2 where d0: "dup2 r0 0 w1 = (r1, w2)" by (metis prod.exhaust)
  obtain r2 w3 where d1: "dup2 r0 1 w2 = (r2, w3)" by (metis prod.exhaust)
  obtain r3 w4 where d2: "dup2 r0 2 w3 = (r3, w4)" by (metis prod.exhaust)
  note c0 = sys_open_cases[OF o] and c1 = dup2_cases[OF d0] and c2 = dup2_cases[OF d1] and c3 = dup2_cases[OF d2]
  have "redirect_streams w =
     (if r0 < 0 then Return (- 1) w1
      else if r1 < 0 then Return (- 1) w2
      else if r2 < 0 then Return (- 1) w3
      else if r3 < 0 then Return (- 1) w4
      else Return 0 (if r0 > 2 then sys_close r0 w4 else w4))"
    by (simp add: redirect_streams_def o d0 d1 d2)
  with assms have r: "Return rc w' =
     (if r0 < 0 then Return (- 1) w1
      else if r1 < 0 then Return (- 1) w2
      else if r2 < 0 then Return (- 1) w3
      else if r3 < 0 then Return (- 1) w4
      else Return 0 (if r0 > 2 then sys_close r0 w4 else w4))"
    by (simp only:)
  show ?thesis
  proof (cases "r0 < 0")
    case True
    with r c0 show ?thesis by (auto simp: failed_redirect_def)
  next
    case r0: False
    with c0 obtain n where n: "r0 = int n" "fds w n = None" "fds w1 = (fds w)(n \<mapsto> ''/dev/null'')"
      "trace w1 = trace w @ [Open ''/dev/null'' (int n)]" by auto
    show ?thesis
    proof (cases "r1 < 0")
      case True
      with r r0 c1 n show ?thesis by (auto simp: failed_redirect_def)
    next
      case r1: False
      with c1 n have w2: "fds w2 = (fds w1)(0 \<mapsto> ''/dev/null'')" "trace w2 = trace w1 @ [Dup2 (int n) 0 0]"
        by (auto split: if_splits)
      show ?thesis
      proof (cases "r2 < 0")
        case True
        with r r0 r1 c2 n w2 show ?thesis by (auto simp: failed_redirect_def)
      next
        case r2: False
        with c2 n w2 have w3: "fds w3 = (fds w2)(Suc 0 \<mapsto> ''/dev/null'')" "trace w3 = trace w2 @ [Dup2 (int n) 1 1]"
          by (auto split: if_splits)
        show ?thesis
        proof (cases "r3 < 0")
          case True
          with r r0 r1 r2 c3 n w2 w3 show ?thesis by (auto simp: failed_redirect_def)
        next
          case r3: False
          with c3 n w2 w3 have w4: "fds w4 = (fds w3)(2 \<mapsto> ''/dev/null'')" "trace w4 = trace w3 @ [Dup2 (int n) 2 2]"
            by (auto split: if_splits)
          from r r0 r1 r2 r3 have rc: "rc = 0" "w' = (if r0 > 2 then sys_close r0 w4 else w4)" by auto
          show ?thesis
            using rc n w2 w3 w4
            by (auto simp: failed_redirect_def intro!: exI[of _ n])
        qed
      qed
    qed
  qed
qed

lemma fork_frame:
  assumes "fork w = (status, w1)"
  shows "trace w1 = trace w @ [Fork status]" and "fds w1 = fds w"
  using assms by (auto simp: fork_def)

lemma chdir_frame:
  assumes "chdir p w = (rc, w1)"
  shows "trace w1 = trace w @ [Chdir p rc]" and "fds w1 = fds w"
  using assms by (auto simp: chdir_def split: if_splits)

lemma detach_terminal_frame:
  assumes "detach_terminal have_setsid tiocnotty w = (failed, w1)"
  shows "fds w1 = fds w \<and> (\<exists>cs. trace w1 = trace w @ cs \<and> \<not> list_ex failed_redirect cs)"
proof -
  obtain r0 w0 where o: "sys_open ''/dev/tty'' w = (r0, w0)" by (metis prod.exhaust)
  from sys_open_cases[OF o] show ?thesis
    using assms
    by (auto simp: detach_terminal_def setsid_def ioctl_TIOCNOTTY_def o failed_redirect_def Let_def
        split: if_splits)
qed

text \<open>
  C9.  \<^verbatim>\<open>daemon\<close> is called with \<^verbatim>\<open>noclose\<close> 0 and returns.  It returns 0 or -1.
  No call follows a failed \<^verbatim>\<open>open\<close> of the null device or a failed \<^verbatim>\<open>dup2\<close>, and
  after such a failure the result is -1.  When the result is 0, the last calls were one
  \<^verbatim>\<open>open\<close> of the null device and a \<^verbatim>\<open>dup2\<close> of its descriptor onto each of 0, 1
  and 2, followed by a \<^verbatim>\<open>close\<close> of that descriptor if it is above 2; then 0, 1 and 2
  are open on the null device, and every descriptor above 2 is as it was before the
  call: none is left over.
\<close>

theorem daemon_redirects_streams:
  assumes "daemon have_setsid tiocnotty nochdir False w = Return rc w'"
  shows "(rc = 0 \<or> rc = - 1) \<and>
         calls_after_failure (new_calls w w') = [] \<and>
         (list_ex failed_redirect (new_calls w w') \<longrightarrow> rc = - 1) \<and>
         (rc = 0 \<longrightarrow>
            (\<exists>fd cs. new_calls w w' =
                cs @ [Open ''/dev/null'' (int fd), Dup2 (int fd) 0 0, Dup2 (int fd) 1 1,
                      Dup2 (int fd) 2 2] @ (if 2 < fd then [Close (int fd)] else []) \<and>
                \<not> list_ex failed_redirect cs) \<and>
            fds w' 0 = Some ''/dev/null'' \<and> fds w' 1 = Some ''/dev/null'' \<and>
            fds w' 2 = Some ''/dev/null'' \<and> (\<forall>n. 2 < n \<longrightarrow> fds w' n = fds w n))"
proof -
  obtain status w1 where f: "fork w = (status, w1)" by (metis prod.exhaust)
  obtain failed w2 where d: "detach_terminal have_setsid tiocnotty w1 = (failed, w2)"
    by (metis prod.exhaust)
  obtain r0 w0 where c0: "chdir ''/'' w2 = (r0, w0)" by (metis prod.exhaust)
  define r where "r = (if nochdir then 0 else r0)"
  define w3 where "w3 = (if nochdir then w2 else w0)"
  note ff = fork_frame[OF f]
  from detach_terminal_frame[OF d] obtain ds where
    dd: "fds w2 = fds w1" "trace w2 = trace w1 @ ds" "\<not> list_ex failed_redirect ds" by blast
  have cc: "fds w3 = fds w2 \<and> (\<exists>cs. trace w3 = trace w2 @ cs \<and> \<not> list_ex failed_redirect cs)"
    using chdir_frame[OF c0]
    by (auto simp: failed_redirect_def w3_def)
  then obtain cs3 where c3: "fds w3 = fds w2" "trace w3 = trace w2 @ cs3" "\<not> list_ex failed_redirect cs3"
    by blast
  have pre: "trace w3 = trace w @ (Fork status # ds @ cs3)" "\<not> list_ex failed_redirect (Fork status # ds @ cs3)"
    "fds w3 = fds w"
    using ff dd c3 by (simp_all add: failed_redirect_def)
  have eq: "daemon have_setsid tiocnotty nochdir False w =
     (if status < 0 then Return (- 1) w1
      else if status > 0 then Exit 0 w1
      else if failed then Return (- 1) w2
      else if \<not> nochdir \<and> r < 0 then Return (- 1) w3
      else redirect_streams w3)"
    by (cases nochdir) (simp_all add: daemon_def f d c0 r_def w3_def)
  have nf: "\<not> list_ex failed_redirect [Fork status]" "\<not> list_ex failed_redirect (Fork status # ds)"
    using dd(3) by (simp_all add: failed_redirect_def)
  have k: "(status < 0 \<and> rc = - 1 \<and> w' = w1) \<or> (failed \<and> rc = - 1 \<and> w' = w2) \<or>
           (rc = - 1 \<and> w' = w3) \<or> redirect_streams w3 = Return rc w'"
    using assms unfolding eq by (simp split: if_splits)
  then consider (a) "status < 0" "rc = - 1" "w' = w1"
    | (b) "failed" "rc = - 1" "w' = w2"
    | (c) "rc = - 1" "w' = w3"
    | (e) "redirect_streams w3 = Return rc w'"
    by blast
  then show ?thesis
  proof cases
    case a
    have n: "new_calls w w' = [Fork status]" using a ff by (simp add: new_calls_def)
    show ?thesis unfolding n using nf(1) no_failure_calls[OF nf(1)] a(2) by simp
  next
    case b
    have n: "new_calls w w' = Fork status # ds" using b ff dd by (simp add: new_calls_def)
    show ?thesis unfolding n using nf(2) no_failure_calls[OF nf(2)] b(2) by simp
  next
    case c
    have n: "new_calls w w' = Fork status # ds @ cs3" using c pre(1) by (simp add: new_calls_def)
    show ?thesis unfolding n using pre(2) no_failure_calls[OF pre(2)] c(1) by simp
  next
    case e
    from redirect_streams_Return[OF e] obtain cs where
      r: "trace w' = trace w3 @ cs" "calls_after_failure cs = []"
        "list_ex failed_redirect cs \<longrightarrow> rc = - 1" "rc = 0 \<or> rc = - 1"
        "rc = 0 \<longrightarrow>
              (\<exists>fd. cs = [Open ''/dev/null'' (int fd), Dup2 (int fd) 0 0, Dup2 (int fd) 1 1, Dup2 (int fd) 2 2] @
                     (if 2 < fd then [Close (int fd)] else [])) \<and>
              fds w' 0 = Some ''/dev/null'' \<and> fds w' 1 = Some ''/dev/null'' \<and> fds w' 2 = Some ''/dev/null'' \<and>
              (\<forall>n. 2 < n \<longrightarrow> fds w' n = fds w3 n)"
      by blast
    define p where "p = Fork status # ds @ cs3"
    have pp: "\<not> list_ex failed_redirect p" "trace w3 = trace w @ p"
      using pre by (simp_all add: p_def)
    have n: "new_calls w w' = p @ cs" using r(1) pp(2) by (simp add: new_calls_def)
    have 1: "calls_after_failure (new_calls w w') = []"
      unfolding n using calls_after_failure_append[OF pp(1)] r(2) by simp
    have 2: "list_ex failed_redirect (new_calls w w') \<longrightarrow> rc = - 1"
      unfolding n using pp(1) r(3) by simp
    have 3: "rc = 0 \<longrightarrow>
            (\<exists>fd cs. new_calls w w' =
                cs @ [Open ''/dev/null'' (int fd), Dup2 (int fd) 0 0, Dup2 (int fd) 1 1,
                      Dup2 (int fd) 2 2] @ (if 2 < fd then [Close (int fd)] else []) \<and>
                \<not> list_ex failed_redirect cs)"
      unfolding n using r(5) pp(1) by blast
    show ?thesis using 1 2 3 r(4,5) pre(3) by simp
  qed
qed

lemmas daemon_defs =
  daemon_def detach_terminal_def redirect_streams_def fork_def setsid_def chdir_def
  sys_open_def ioctl_TIOCNOTTY_def dup2_def sys_close_def lowest_free_def upt_rec

theorem daemon_redirects_streams_witness:
  "daemon True False False False example_world =
     Return 0 (world_of (daemon True False False False example_world)) \<and>
   fds (world_of (daemon True False False False example_world)) 0 = Some ''/dev/null'' \<and>
   fds (world_of (daemon True False False False example_world)) 1 = Some ''/dev/null'' \<and>
   fds (world_of (daemon True False False False example_world)) 2 = Some ''/dev/null'' \<and>
   fds (world_of (daemon True False False False example_world)) 3 = None \<and>
   daemon True False False False (example_world\<lparr>faults := [0, 0, 0, 0, 0, 24]\<rparr>) =
     Return (- 1)
       (world_of (daemon True False False False (example_world\<lparr>faults := [0, 0, 0, 0, 0, 24]\<rparr>))) \<and>
   calls_after_failure
     (new_calls (example_world\<lparr>faults := [0, 0, 0, 0, 0, 24]\<rparr>)
        (world_of (daemon True False False False (example_world\<lparr>faults := [0, 0, 0, 0, 0, 24]\<rparr>)))) = []"
proof -
  have h1: "daemon True False False False example_world =
     Return 0 (world_of (daemon True False False False example_world))"
    by (simp add: daemon_defs library_defs example_defs Let_def)
  have h2: "daemon True False False False (example_world\<lparr>faults := [0, 0, 0, 0, 0, 24]\<rparr>) =
     Return (- 1)
       (world_of (daemon True False False False (example_world\<lparr>faults := [0, 0, 0, 0, 0, 24]\<rparr>)))"
    by (simp add: daemon_defs library_defs example_defs Let_def)
  have f: "fds example_world 3 = None" by (simp add: example_defs)
  from daemon_redirects_streams[OF h1] daemon_redirects_streams[OF h2] h1 h2 f
  show ?thesis by simp
qed

subsection \<open>The temporary cache\<close>

lemma and_then_Return:
  assumes "and_then r k = Return x w"
  obtains y w0 where "r = Return y w0" and "k y w0 = Return x w"
  using assms by (cases r) (simp_all add: and_then_def)

lemma parse_options_command:
  "parse_options conv opts cfg w = Return c w1 \<Longrightarrow> command c = command cfg"
proof (induction opts arbitrary: cfg w)
  case Nil
  then show ?case by simp
next
  case (Cons a opts)
  obtain option optarg where a: "a = (option, optarg)" by (cases a)
  from Cons.prems show ?case unfolding a
    by (auto simp: Let_def usage_def die_def split: if_splits dest!: Cons.IH)
qed

lemma parse_options_files:
  assumes "parse_options conv opts cfg w = Return c w1"
  shows "files w1 = files w"
  using parsed_parse_options[of w conv opts cfg] assms by (auto simp: parsed_def)

lemma check_arguments_Return: "check_arguments cfg w = Return u w1 \<Longrightarrow> w1 = w"
  by (auto simp: check_arguments_def Let_def die_def split: if_splits)

lemma default_effect [simp]:
  "files (snd (krb5_cc_default w)) = files w"
  "files (snd (krb5_init_context w)) = files w"
  "files (snd (krb5_cc_get_full_name cc w)) = files w"
  "files (snd (setenv n v w)) = files w"
  by (simp_all add: krb5_cc_default_def krb5_init_context_def krb5_cc_get_full_name_def
      setenv_def next_code_def Let_def)

lemma open_cache_Return: "open_cache cfg w = Return cc w1 \<Longrightarrow> files w1 = files w"
  by (auto simp: open_cache_def split_def die_krb5_def split: if_splits sum.splits option.splits)

lemma set_cache_Return:
  assumes "set_cache cfg cc w = Return cfg' w1"
  shows "files w1 = files w" and "command cfg' = command cfg"
    and "clean_cache cfg' = clean_cache cfg"
    and "cache cfg = Some name \<Longrightarrow> cache cfg' = Some name"
  using assms
  by (auto simp: set_cache_def split_def die_krb5_def die_def split: if_splits sum.splits option.splits)

lemma renew_not_Exit: "renew cfg st w \<noteq> Exit s w'"
  by (auto simp: renew_def renew_request_def renew_done_def split_def Let_def
      split: option.splits sum.splits)

lemma cleanup_files [simp]: "files (cleanup cfg st w) = files w"
  by (simp add: cleanup_def kill_def)

lemma exit_cleanup_removes:
  assumes "exit_cleanup cfg st w = Exited st' w'" and "clean_cache cfg" and "cache cfg = Some name"
  shows "files w' name = None"
  using assms by (auto simp: exit_cleanup_def remove_cache_def close_handles_def Let_def)

lemma running_removes:
  assumes "running cfg es w = Exited st w'" and "clean_cache cfg" and "cache cfg = Some name"
  shows "files w' name = None"
  using assms
proof (induction cfg es w rule: running.induct)
  case (1 config w)
  then show ?case by simp
next
  case (2 config prior_status es w)
  show ?case
  proof (cases "renew config prior_status w")
    case (Return code w1)
    with 2 show ?thesis
      by (auto split: if_splits dest: exit_cleanup_removes)
  next
    case (Exit_cleanup s w1)
    with 2 show ?thesis by (auto dest: exit_cleanup_removes)
  next
    case (Exit s w1)
    then show ?thesis by (simp add: renew_not_Exit)
  next
    case (Crash w1)
    with 2 show ?thesis by simp
  qed
next
  case (3 config status es w)
  then show ?case
    by (auto split: if_splits dest: exit_cleanup_removes[where name = name])
qed

lemma run_framework_removes:
  assumes "run_framework env cfg w = Exited st w'" and "clean_cache cfg" and "cache cfg = Some name"
  shows "files w' name = None"
proof (cases "renew cfg 0 w")
  case (Return code w1)
  with assms show ?thesis
    by (auto simp: run_framework_def Let_def split: if_splits option.splits
        dest: exit_cleanup_removes running_removes[where name = name])
next
  case (Exit_cleanup s w1)
  with assms show ?thesis
    by (auto simp: run_framework_def Let_def split: if_splits option.splits
        dest: exit_cleanup_removes running_removes[where name = name])
next
  case (Exit s w1)
  then show ?thesis by (simp add: renew_not_Exit)
next
  case (Crash w1)
  with assms show ?thesis
    by (auto simp: run_framework_def Let_def split: if_splits option.splits
        dest: exit_cleanup_removes running_removes[where name = name])
qed

text \<open>
  C3 (amended).  \<^verbatim>\<open>main\<close> has handed a configuration with a command to the framework, so it
  has copied the cache to a temporary file, whose name no file had before.  Then the
  file exists when the framework starts, the configuration names it and marks it for
  cleaning, and whenever the framework ends the process (the child has exited, a renewal
  has failed under the error policy or inside \<^verbatim>\<open>renew\<close>, the command could not be
  spawned or the process could not be detached), the file is gone when the process
  exits.
\<close>

theorem temporary_cache_removed:
  assumes "main convert_number opts args w = Return config w1"
    and "command config \<noteq> None"
    and "run_framework env config w1 = Exited status w'"
  shows "\<exists>name. cache config = Some name \<and> clean_cache config \<and>
           files w name = None \<and> files w1 name \<noteq> None \<and> files w' name = None"
proof -
  from assms(1) obtain c0 wa where p: "parse_options convert_number opts zero_config w = Return c0 wa"
    and r1: "(let config = (if args \<noteq> [] then c0\<lparr>command := Some args\<rparr> else c0)
       in and_then (check_arguments config wa) (\<lambda>u w2.
            and_then (open_cache config w2) (\<lambda>ccache w3.
              if command config \<noteq> None then
                and_then (copy_cache ccache w3) (\<lambda>(name, new) w4.
                  set_cache (config\<lparr>cache := Some name, clean_cache := True\<rparr>) new w4)
              else set_cache config ccache w3))) = Return config w1"
    unfolding main_def by (erule and_then_Return)
  define cfg where "cfg = (if args \<noteq> [] then c0\<lparr>command := Some args\<rparr> else c0)"
  from r1 obtain u wb where ck: "check_arguments cfg wa = Return u wb"
    and r2: "and_then (open_cache cfg wb) (\<lambda>ccache w3.
              if command cfg \<noteq> None then
                and_then (copy_cache ccache w3) (\<lambda>(name, new) w4.
                  set_cache (cfg\<lparr>cache := Some name, clean_cache := True\<rparr>) new w4)
              else set_cache cfg ccache w3) = Return config w1"
    unfolding Let_def cfg_def[symmetric] by (erule and_then_Return)
  from r2 obtain cc wc where oc: "open_cache cfg wb = Return cc wc"
    and r3: "(if command cfg \<noteq> None then
                and_then (copy_cache cc wc) (\<lambda>(name, new) w4.
                  set_cache (cfg\<lparr>cache := Some name, clean_cache := True\<rparr>) new w4)
              else set_cache cfg cc wc) = Return config w1"
    by (erule and_then_Return)
  have cmd: "command cfg \<noteq> None"
  proof
    assume n: "command cfg = None"
    with r3 have "set_cache cfg cc wc = Return config w1" by simp
    from set_cache_Return(2)[OF this] n assms(2) show False by simp
  qed
  with r3 obtain nn wd where cp: "copy_cache cc wc = Return nn wd"
    and r4: "(case nn of (name, new) \<Rightarrow> \<lambda> w4.
                  set_cache (cfg\<lparr>cache := Some name, clean_cache := True\<rparr>) new w4) wd = Return config w1"
    by (auto elim: and_then_Return)
  obtain name new where nn: "nn = (name, new)" by (cases nn)
  from r4 nn have sc: "set_cache (cfg\<lparr>cache := Some name, clean_cache := True\<rparr>) new wd = Return config w1"
    by simp
  from copy_cache_Return[OF cp[unfolded nn]] have fr: "files wc name = None" and cr: "files wd name \<noteq> None"
    by auto
  have fw: "files wc = files w"
    using parse_options_files[OF p] check_arguments_Return[OF ck] open_cache_Return[OF oc] by simp
  have c: "cache config = Some name" "clean_cache config" "files w1 = files wd"
    using set_cache_Return[OF sc] by simp_all
  from run_framework_removes[OF assms(3) c(2) c(1)] c fr cr fw show ?thesis by auto
qed

lemmas framework_defs =
  run_framework_def exit_cleanup_def remove_cache_def close_handles_def cleanup_def kill_def
  attempt_result_def keep_running_def write_pid_def final_world_def

theorem temporary_cache_removed_witness:
  "main example_convert [] [''/bin/sh''] example_world =
     Return (zero_config\<lparr>command := Some [''/bin/sh''],
               cache := Some ''/tmp/krb5cc_1000_Ab3xYz'', clean_cache := True\<rparr>)
       (world_of (main example_convert [] [''/bin/sh''] example_world)) \<and>
   command (zero_config\<lparr>command := Some [''/bin/sh''],
              cache := Some ''/tmp/krb5cc_1000_Ab3xYz'', clean_cache := True\<rparr>) \<noteq> None \<and>
   run_framework example_environment
       (zero_config\<lparr>command := Some [''/bin/sh''],
          cache := Some ''/tmp/krb5cc_1000_Ab3xYz'', clean_cache := True\<rparr>)
       (world_of (main example_convert [] [''/bin/sh''] example_world)) =
     Exited 2 (final_world (run_framework example_environment
       (zero_config\<lparr>command := Some [''/bin/sh''],
          cache := Some ''/tmp/krb5cc_1000_Ab3xYz'', clean_cache := True\<rparr>)
       (world_of (main example_convert [] [''/bin/sh''] example_world)))) \<and>
   files (world_of (main example_convert [] [''/bin/sh''] example_world))
     ''/tmp/krb5cc_1000_Ab3xYz'' \<noteq> None \<and>
   files (final_world (run_framework example_environment
       (zero_config\<lparr>command := Some [''/bin/sh''],
          cache := Some ''/tmp/krb5cc_1000_Ab3xYz'', clean_cache := True\<rparr>)
       (world_of (main example_convert [] [''/bin/sh''] example_world))))
     ''/tmp/krb5cc_1000_Ab3xYz'' = None"
proof -
  have h1: "main example_convert [] [''/bin/sh''] example_world =
     Return (zero_config\<lparr>command := Some [''/bin/sh''],
               cache := Some ''/tmp/krb5cc_1000_Ab3xYz'', clean_cache := True\<rparr>)
       (world_of (main example_convert [] [''/bin/sh''] example_world))"
    by (simp add: setup_defs copy_defs library_defs example_defs Let_def)
  have h2: "command (zero_config\<lparr>command := Some [''/bin/sh''],
              cache := Some ''/tmp/krb5cc_1000_Ab3xYz'', clean_cache := True\<rparr>) \<noteq> None"
    by simp
  have h3: "run_framework example_environment
       (zero_config\<lparr>command := Some [''/bin/sh''],
          cache := Some ''/tmp/krb5cc_1000_Ab3xYz'', clean_cache := True\<rparr>)
       (world_of (main example_convert [] [''/bin/sh''] example_world)) =
     Exited 2 (final_world (run_framework example_environment
       (zero_config\<lparr>command := Some [''/bin/sh''],
          cache := Some ''/tmp/krb5cc_1000_Ab3xYz'', clean_cache := True\<rparr>)
       (world_of (main example_convert [] [''/bin/sh''] example_world))))"
    by (simp add: framework_defs renew_defs setup_defs copy_defs library_defs example_defs Let_def)
  from temporary_cache_removed[OF h1 h2 h3] h1 h2 h3 show ?thesis by simp
qed

text \<open>
  C3 as the specification states it (the file is removed on every exit path, it is never
  leaked) fails when the setup fails after the file was made: here \<^verbatim>\<open>setenv\<close> fails
  after \<^verbatim>\<open>copy_cache\<close> has returned, \<^verbatim>\<open>main\<close> ends with \<^verbatim>\<open>die\<close>, and the
  copy of the cache is still there.
\<close>

theorem temporary_cache_removed_counterexample:
  "main example_convert [] [''/bin/sh'']
       (example_world\<lparr>faults := [0, 0, 0, 0, 0, 0, 0, 0, 0, 12]\<rparr>) =
     Exit 1 (world_of (main example_convert [] [''/bin/sh'']
       (example_world\<lparr>faults := [0, 0, 0, 0, 0, 0, 0, 0, 0, 12]\<rparr>))) \<and>
   files (example_world\<lparr>faults := [0, 0, 0, 0, 0, 0, 0, 0, 0, 12]\<rparr>)
     ''/tmp/krb5cc_1000_Ab3xYz'' = None \<and>
   files (world_of (main example_convert [] [''/bin/sh'']
       (example_world\<lparr>faults := [0, 0, 0, 0, 0, 0, 0, 0, 0, 12]\<rparr>)))
     ''/tmp/krb5cc_1000_Ab3xYz'' =
     Some \<lparr>mode = 384, content = Some \<lparr>primary = ''alice@EXAMPLE.ORG'',
             tickets = [\<lparr>client = ''alice@EXAMPLE.ORG'', serial = 0\<rparr>]\<rparr>\<rparr> \<and>
   trace (world_of (main example_convert [] [''/bin/sh'']
       (example_world\<lparr>faults := [0, 0, 0, 0, 0, 0, 0, 0, 0, 12]\<rparr>))) =
     [Krb5_init_context, Krb5_cc_default, Mkstemp ''/tmp/krb5cc_1000_XXXXXX'', Fchmod 3 384,
      Krb5_cc_resolve ''/tmp/krb5cc_1000_Ab3xYz'', Krb5_cc_get_principal ''/tmp/krb5cc_1000'',
      Krb5_cc_initialize ''/tmp/krb5cc_1000_Ab3xYz'' ''alice@EXAMPLE.ORG'',
      Krb5_free_principal ''alice@EXAMPLE.ORG'',
      Krb5_cc_copy_cache ''/tmp/krb5cc_1000'' ''/tmp/krb5cc_1000_Ab3xYz'',
      Krb5_cc_close ''/tmp/krb5cc_1000'', Setenv ''KRB5CCNAME'' ''/tmp/krb5cc_1000_Ab3xYz'',
      Die ''cannot set KRB5CCNAME environment variable'']"
  by (simp add: setup_defs copy_defs library_defs example_defs Let_def)

subsection \<open>The signal to the child\<close>

lemma signals_simps [simp]:
  "signals (advance w) = signals w"
  "signals (acquire r w) = signals w"
  "signals (release r w) = signals w"
  "signals (warn m w) = signals w"
  "signals (warn_krb5 code m w) = signals w"
  "signals (notice m a w) = signals w"
  by (simp_all add: signals_def is_signal_def)

lemma signals_library [simp]:
  "signals (snd (krb5_cc_resolve n w)) = signals w"
  "signals (snd (krb5_cc_get_principal cc w)) = signals w"
  "signals (snd (krb5_get_renewed_creds u cc w)) = signals w"
  "signals (snd (krb5_cc_initialize cc p w)) = signals w"
  "signals (snd (krb5_cc_store_cred cc cr w)) = signals w"
  "signals (snd (krb5_cc_close cc w)) = signals w"
  "signals (krb5_free_principal p w) = signals w"
  "signals (krb5_free_cred_contents cro w) = signals w"
  by (simp_all add: signals_def is_signal_def)

lemma signals_renew_verbose [simp]: "signals (renew_verbose cfg u w) = signals w"
  using renew_verbose_trace[of u cfg w]
  by (auto simp: signals_def is_signal_def verbose_calls_def)

lemma signals_renew_done [simp]:
  "signals (world_of (renew_done cc u v cr code w)) = signals w"
  by (simp add: renew_done_def Let_def split: option.splits)

lemma signals_renew_request [simp]:
  "signals (world_of (renew_request cc u w)) = signals w"
  by (simp add: renew_request_def split_def split: sum.splits)

lemma signals_renew: "signals (world_of (renew cfg st w)) = signals w"
  by (simp add: renew_def split_def Let_def split: sum.splits option.splits)

lemma exit_cleanup_signals:
  "\<exists>w'. exit_cleanup cfg st w = Exited st w' \<and>
     signals w' = signals w @
       (if child cfg \<noteq> 0 \<and> signal_child (private_krenew cfg) then [Kill (child cfg) SIGHUP] else [])"
  by (simp add: exit_cleanup_def remove_cache_def close_handles_def cleanup_def kill_def Let_def
      signals_def is_signal_def record_call_def split: option.splits)

text \<open>
  C7.  A run of the framework that ends has ended with one event, before which it was
  waiting.  If that event is a wake (a renewal failed and the run ends abnormally), the
  run has sent exactly one signal, \<^verbatim>\<open>SIGHUP\<close> to the child, when the recorded process
  ID of the child is not 0 and \<^verbatim>\<open>signal_child\<close> is set, and no signal otherwise.
  If that event is the exit of the child, the run has sent no signal at all.  The
  signal is the one of \<^verbatim>\<open>cleanup\<close> in \<^verbatim>\<open>krenew.c\<close>; \<^verbatim>\<open>renew\<close> sends none.
\<close>

theorem hangup_only_on_abnormal_end:
  assumes "running config es w = Exited status w'"
  shows "\<exists>pre e post w0.
           es = pre @ e # post \<and> running config pre w = Waiting config w0 \<and>
           running config [e] w0 = Exited status w' \<and>
           signals w' = signals w @
             (case e of
                Child_exit s \<Rightarrow> []
              | Wake prior_status \<Rightarrow>
                  if child config \<noteq> 0 \<and> signal_child (private_krenew config)
                  then [Kill (child config) SIGHUP] else [])"
  using assms
proof (induction config es w rule: running.induct)
  case (1 config w)
  then show ?case by simp
next
  case (2 config prior_status es w)
  let ?sig = "if child config \<noteq> 0 \<and> signal_child (private_krenew config)
                  then [Kill (child config) SIGHUP] else []"
  have ends: "running config [Wake prior_status] w = Exited status w' \<Longrightarrow>
              signals w' = signals w @ ?sig \<Longrightarrow> ?case"
    by (rule exI[of _ "[]"], rule exI[of _ "Wake prior_status"], rule exI[of _ es],
        rule exI[of _ w]) simp
  show ?case
  proof (cases "renew config prior_status w")
    case (Return code w1)
    have s1: "signals w1 = signals w" using signals_renew[of config prior_status w] Return by simp
    show ?thesis
    proof (cases "keep_running config
               (attempt_result prior_status code (drop (length (trace w)) (trace w1)))")
      case True
      with 2 Return have r: "running config es w1 = Exited status w'" by simp
      from "2.IH"[OF Return True r] obtain pre e post w0 where
        d: "es = pre @ e # post" "running config pre w1 = Waiting config w0"
           "running config [e] w0 = Exited status w'"
           "signals w' = signals w1 @
             (case e of Child_exit s \<Rightarrow> []
              | Wake prior_status \<Rightarrow> ?sig)"
        by blast
      have "running config (Wake prior_status # pre) w = Waiting config w0"
        using Return True d(2) by simp
      with d s1 show ?thesis
        by (intro exI[of _ "Wake prior_status # pre"] exI[of _ e] exI[of _ post] exI[of _ w0]) simp
    next
      case False
      with 2 Return have e: "exit_cleanup config 1 w1 = Exited status w'" by simp
      with exit_cleanup_signals[of config 1 w1] s1 have "signals w' = signals w @ ?sig" by auto
      moreover have "running config [Wake prior_status] w = Exited status w'"
        using Return False e by simp
      ultimately show ?thesis by (rule ends[rotated])
    qed
  next
    case (Exit_cleanup s w1)
    have s1: "signals w1 = signals w" using signals_renew[of config prior_status w] Exit_cleanup by simp
    from 2 Exit_cleanup have e: "exit_cleanup config s w1 = Exited status w'" by simp
    with exit_cleanup_signals[of config s w1] s1 have "signals w' = signals w @ ?sig" by auto
    moreover have "running config [Wake prior_status] w = Exited status w'"
      using Exit_cleanup e by simp
    ultimately show ?thesis by (rule ends[rotated])
  next
    case (Exit s w1)
    then show ?thesis by (simp add: renew_not_Exit)
  next
    case (Crash w1)
    with 2 show ?thesis by simp
  qed
next
  case (3 config status0 es w)
  show ?case
  proof (cases "child config \<noteq> 0")
    case True
    with 3 have e: "exit_cleanup (config\<lparr>child := 0\<rparr>) status0 w = Exited status w'" by simp
    with exit_cleanup_signals[of "config\<lparr>child := 0\<rparr>" status0 w]
    have "signals w' = signals w" by auto
    moreover have "running config [Child_exit status0] w = Exited status w'"
      using True e by simp
    ultimately show ?thesis
      by (intro exI[of _ "[]"] exI[of _ "Child_exit status0"] exI[of _ es] exI[of _ w]) simp
  next
    case False
    with 3 have r: "running config es w = Exited status w'" by simp
    from "3.IH"[OF False r] obtain pre e post w0 where
      d: "es = pre @ e # post" "running config pre w = Waiting config w0"
         "running config [e] w0 = Exited status w'"
         "signals w' = signals w @
           (case e of Child_exit s \<Rightarrow> []
            | Wake prior_status \<Rightarrow>
                if child config \<noteq> 0 \<and> signal_child (private_krenew config)
                then [Kill (child config) SIGHUP] else [])"
      by blast
    have "running config (Child_exit status0 # pre) w = Waiting config w0"
      using False d(2) by simp
    with d show ?thesis
      by (intro exI[of _ "Child_exit status0 # pre"] exI[of _ e] exI[of _ post] exI[of _ w0]) simp
  qed
qed

lemmas run_defs = framework_defs renew_defs library_defs example_defs supervising_config_def
  signals_def is_signal_def

theorem hangup_only_on_abnormal_end_witness:
  "running supervising_config [Wake KRB5KDC_ERR_KEY_EXP] example_world =
     Exited 1 (final_world (running supervising_config [Wake KRB5KDC_ERR_KEY_EXP] example_world)) \<and>
   signals (final_world (running supervising_config [Wake KRB5KDC_ERR_KEY_EXP] example_world)) =
     [Kill 4242 SIGHUP] \<and>
   running supervising_config [Wake 0, Child_exit 2] example_world =
     Exited 2 (final_world (running supervising_config [Wake 0, Child_exit 2] example_world)) \<and>
   signals (final_world (running supervising_config [Wake 0, Child_exit 2] example_world)) = []"
proof -
  have h1: "running supervising_config [Wake KRB5KDC_ERR_KEY_EXP] example_world =
     Exited 1 (final_world (running supervising_config [Wake KRB5KDC_ERR_KEY_EXP] example_world))"
    by (simp add: run_defs KRB5KDC_ERR_KEY_EXP_def KRB5KRB_AP_ERR_TKT_EXPIRED_def Let_def)
  have h2: "running supervising_config [Wake 0, Child_exit 2] example_world =
     Exited 2 (final_world (running supervising_config [Wake 0, Child_exit 2] example_world))"
    by (simp add: run_defs Let_def)
  have c: "child supervising_config = 4242" "signal_child (private_krenew supervising_config)"
    and s: "signals example_world = []"
    by (simp_all add: supervising_config_def example_defs signals_def)
  from hangup_only_on_abnormal_end[OF h1] obtain pre e post where
    d: "[Wake KRB5KDC_ERR_KEY_EXP] = pre @ e # post"
       "signals (final_world (running supervising_config [Wake KRB5KDC_ERR_KEY_EXP] example_world)) =
          signals example_world @
            (case e of Child_exit s \<Rightarrow> []
             | Wake prior_status \<Rightarrow>
                 if child supervising_config \<noteq> 0 \<and> signal_child (private_krenew supervising_config)
                 then [Kill (child supervising_config) SIGHUP] else [])"
    by blast
  from d(1) have "e = Wake KRB5KDC_ERR_KEY_EXP" by (simp add: Cons_eq_append_conv)
  with d(2) c s have k: "signals (final_world (running supervising_config [Wake KRB5KDC_ERR_KEY_EXP] example_world)) =
     [Kill 4242 SIGHUP]" by simp
  have n: "signals (final_world (running supervising_config [Wake 0, Child_exit 2] example_world)) = []"
    by (simp add: run_defs Let_def)
  from h1 h2 k n show ?thesis by simp
qed

end
